theory Spec2Isabelle
  imports Complex_Main "HOL-Library.Word" "HOL-Library.Log_Nat"
begin

section \<open>JavaScript values\<close>

text \<open>
  A JavaScript string is a sequence of UTF-16 code units. \<open>js\<close> embeds an ASCII
  literal; text outside ASCII is written as its code units.
\<close>

type_synonym jsstring = "16 word list"

definition js :: "string \<Rightarrow> jsstring" where
  "js s = map (\<lambda>c. of_nat (of_char c)) s"

text \<open>
  Numbers are the finite values of the Number type, each taken as the rational it denotes
  (\<open>NaN\<close> and the infinities are not values of a numeric field of the weather API).
\<close>

type_synonym number = rat

datatype json =
    JNull
  | JBool bool
  | JNum number
  | JStr jsstring
  | JArr "json list"
  | JObj "(jsstring \<times> json) list"

datatype jsval = Undefined | Val json

text \<open>
  What is thrown: \<open>new Error(message)\<close> by the application, a TypeError by a property
  access on \<open>undefined\<close> or \<open>null\<close>, a SyntaxError by \<open>JSON.parse\<close>, a system error
  by the \<open>fs\<close> module.
\<close>

datatype js_error = Error jsstring | TypeError | SyntaxError | SystemError

section \<open>JSON\<close>

subsection \<open>JSON.stringify on an array of strings\<close>

text \<open>
  \<open>QuoteJSONString\<close>: the two-character escapes for backspace, tab, line feed, form feed,
  carriage return, the double quote and the backslash; a backslash, \<open>u\<close> and four
  lower-case hex digits for the other control characters and for a surrogate that is not
  part of a pair; every other code unit as it is.
\<close>

definition hex_digit :: "nat \<Rightarrow> 16 word" where
  "hex_digit n = (if n < 10 then of_nat (48 + n) else of_nat (87 + n))"

definition unicode_escape :: "16 word \<Rightarrow> jsstring" where
  "unicode_escape c =
     [0x5C, 0x75, hex_digit (unat c div 4096), hex_digit (unat c div 256 mod 16),
      hex_digit (unat c div 16 mod 16), hex_digit (unat c mod 16)]"

definition is_leading_surrogate :: "16 word \<Rightarrow> bool" where
  "is_leading_surrogate c \<longleftrightarrow> 0xD800 \<le> c \<and> c \<le> 0xDBFF"

definition is_trailing_surrogate :: "16 word \<Rightarrow> bool" where
  "is_trailing_surrogate c \<longleftrightarrow> 0xDC00 \<le> c \<and> c \<le> 0xDFFF"

definition quote_unit :: "16 word \<Rightarrow> jsstring" where
  "quote_unit c =
     (if c = 0x08 then [0x5C, 0x62]
      else if c = 0x09 then [0x5C, 0x74]
      else if c = 0x0A then [0x5C, 0x6E]
      else if c = 0x0C then [0x5C, 0x66]
      else if c = 0x0D then [0x5C, 0x72]
      else if c = 0x22 then [0x5C, 0x22]
      else if c = 0x5C then [0x5C, 0x5C]
      else if c < 0x20 \<or> is_leading_surrogate c \<or> is_trailing_surrogate c then unicode_escape c
      else [c])"

fun quote_units :: "jsstring \<Rightarrow> jsstring" where
  "quote_units [] = []"
| "quote_units [c] = quote_unit c"
| "quote_units (c # d # cs) =
     (if is_leading_surrogate c \<and> is_trailing_surrogate d then c # d # quote_units cs
      else quote_unit c @ quote_units (d # cs))"

definition QuoteJSONString :: "jsstring \<Rightarrow> jsstring" where
  "QuoteJSONString s = [0x22] @ quote_units s @ [0x22]"

fun join :: "jsstring \<Rightarrow> jsstring list \<Rightarrow> jsstring" where
  "join sep [] = []"
| "join sep [x] = x"
| "join sep (x # y # ys) = x @ sep @ join sep (y # ys)"

text \<open>
  \<open>JSON.stringify(list, null, 2)\<close> for a list of strings: \<open>[]\<close> when it is empty, and
  otherwise one quoted element per line, indented by two spaces and separated by commas.
\<close>

definition separator :: jsstring where
  "separator = [0x2C, 0x0A] @ js ''  ''"

definition JSON_stringify_strings :: "jsstring list \<Rightarrow> jsstring" where
  "JSON_stringify_strings xs =
     (if xs = [] then js ''[]''
      else [0x5B, 0x0A] @ js ''  '' @ join separator (map QuoteJSONString xs) @ [0x0A, 0x5D])"

subsection \<open>JSON.parse\<close>

text \<open>
  The text is cut into tokens (white space is space, tab, line feed and carriage return, and
  may stand between any two tokens), and the tokens are read by the grammar below. Any text
  that is not a JSON text makes \<open>JSON.parse\<close> throw a SyntaxError.
\<close>

datatype token =
  LBracket | RBracket | LBrace | RBrace | Colon | Comma
  | TNull | TTrue | TFalse | TNum number | TStr jsstring

definition is_json_ws :: "16 word \<Rightarrow> bool" where
  "is_json_ws c \<longleftrightarrow> c = 0x20 \<or> c = 0x09 \<or> c = 0x0A \<or> c = 0x0D"

definition hex_value :: "16 word \<Rightarrow> nat option" where
  "hex_value c =
     (if 0x30 \<le> c \<and> c \<le> 0x39 then Some (unat c - 48)
      else if 0x41 \<le> c \<and> c \<le> 0x46 then Some (unat c - 55)
      else if 0x61 \<le> c \<and> c \<le> 0x66 then Some (unat c - 87)
      else None)"

definition simple_escape :: "16 word \<Rightarrow> 16 word option" where
  "simple_escape e =
     (if e = 0x22 then Some 0x22
      else if e = 0x5C then Some 0x5C
      else if e = 0x2F then Some 0x2F
      else if e = 0x62 then Some 0x08
      else if e = 0x66 then Some 0x0C
      else if e = 0x6E then Some 0x0A
      else if e = 0x72 then Some 0x0D
      else if e = 0x74 then Some 0x09
      else None)"

text \<open>
  \<open>scan_string\<close> reads a string after its opening quote, up to the closing one, and
  returns the rest of the text with it.
\<close>

definition cons_result :: "'a \<Rightarrow> ('a list \<times> 'b) option \<Rightarrow> ('a list \<times> 'b) option" where
  "cons_result x r = map_option (\<lambda>(xs, rest). (x # xs, rest)) r"

fun scan_string :: "jsstring \<Rightarrow> (jsstring \<times> jsstring) option" where
  "scan_string [] = None"
| "scan_string (c # cs) =
     (if c = 0x22 then Some ([], cs)
      else if c = 0x5C then
        (case cs of
           [] \<Rightarrow> None
         | e # es \<Rightarrow>
             if e = 0x75 then
               (case es of
                  h1 # h2 # h3 # h4 # rest \<Rightarrow>
                    (case (hex_value h1, hex_value h2, hex_value h3, hex_value h4) of
                       (Some a, Some b, Some c, Some d) \<Rightarrow>
                         cons_result (of_nat (a * 4096 + b * 256 + c * 16 + d)) (scan_string rest)
                     | _ \<Rightarrow> None)
                | _ \<Rightarrow> None)
             else
               (case simple_escape e of
                  None \<Rightarrow> None
                | Some x \<Rightarrow> cons_result x (scan_string es)))
      else if c < 0x20 then None
      else cons_result c (scan_string cs))"


definition is_digit :: "16 word \<Rightarrow> bool" where
  "is_digit c \<longleftrightarrow> 0x30 \<le> c \<and> c \<le> 0x39"

definition digits_value :: "jsstring \<Rightarrow> nat" where
  "digits_value ds = foldl (\<lambda>n c. 10 * n + (unat c - 48)) 0 ds"

text \<open>
  A JSON number: an optional minus sign, an integer part without a leading zero, an
  optional fraction and an optional exponent. The value is the exact value of the literal.
\<close>

definition scan_int :: "jsstring \<Rightarrow> (nat \<times> jsstring) option" where
  "scan_int s =
     (case s of
        [] \<Rightarrow> None
      | c # cs \<Rightarrow>
          if c = 0x30 then Some (0, cs)
          else if is_digit c then Some (digits_value (takeWhile is_digit s), dropWhile is_digit s)
          else None)"

definition scan_frac :: "jsstring \<Rightarrow> (number \<times> jsstring) option" where
  "scan_frac s =
     (case s of
        c # cs \<Rightarrow>
          if c = 0x2E then
            (let ds = takeWhile is_digit cs in
             if ds = [] then None
             else Some (of_nat (digits_value ds) / 10 ^ length ds, dropWhile is_digit cs))
          else Some (0, s)
      | [] \<Rightarrow> Some (0, s))"

definition scan_digits1 :: "jsstring \<Rightarrow> (nat \<times> jsstring) option" where
  "scan_digits1 s =
     (let ds = takeWhile is_digit s in
      if ds = [] then None else Some (digits_value ds, dropWhile is_digit s))"

definition scan_exp :: "jsstring \<Rightarrow> (int \<times> jsstring) option" where
  "scan_exp s =
     (case s of
        c # cs \<Rightarrow>
          if c = 0x65 \<or> c = 0x45 then
            (case cs of
               sg # ds \<Rightarrow>
                 if sg = 0x2D then map_option (\<lambda>(n, r). (- int n, r)) (scan_digits1 ds)
                 else if sg = 0x2B then map_option (\<lambda>(n, r). (int n, r)) (scan_digits1 ds)
                 else map_option (\<lambda>(n, r). (int n, r)) (scan_digits1 cs)
             | [] \<Rightarrow> None)
          else Some (0, s)
      | [] \<Rightarrow> Some (0, s))"

definition pow10 :: "int \<Rightarrow> number" where
  "pow10 e = (if 0 \<le> e then 10 ^ nat e else 1 / 10 ^ nat (- e))"

definition scan_unsigned :: "jsstring \<Rightarrow> (number \<times> jsstring) option" where
  "scan_unsigned s =
     (case scan_int s of
        None \<Rightarrow> None
      | Some (i, s1) \<Rightarrow>
          (case scan_frac s1 of
             None \<Rightarrow> None
           | Some (f, s2) \<Rightarrow>
               (case scan_exp s2 of
                  None \<Rightarrow> None
                | Some (e, s3) \<Rightarrow> Some ((of_nat i + f) * pow10 e, s3))))"

definition scan_number :: "jsstring \<Rightarrow> (number \<times> jsstring) option" where
  "scan_number s =
     (case s of
        [] \<Rightarrow> None
      | c # cs \<Rightarrow>
          if c = 0x2D then map_option (\<lambda>(x, r). (- x, r)) (scan_unsigned cs)
          else scan_unsigned s)"


text \<open>Every scanner consumes input, so the tokenizer terminates.\<close>

lemma scan_string_shorter: "scan_string s = Some (x, r) \<Longrightarrow> length r < length s"
proof (induction s arbitrary: x r rule: scan_string.induct)
  case 1
  then show ?case by simp
next
  case (2 c cs)
  show ?case using "2.prems" "2.IH"
    apply (simp split: if_splits list.splits option.splits prod.splits add: cons_result_def)
    apply fastforce+
    done
qed

lemma scan_int_shorter: "scan_int s = Some (x, r) \<Longrightarrow> length r < length s"
  by (auto simp: scan_int_def length_dropWhile_le less_Suc_eq_le split: list.splits if_splits)

lemma scan_frac_shorter: "scan_frac s = Some (x, r) \<Longrightarrow> length r \<le> length s"
  by (auto simp: scan_frac_def Let_def length_dropWhile_le le_SucI split: list.splits if_splits)

lemma scan_digits1_shorter: "scan_digits1 s = Some (x, r) \<Longrightarrow> length r \<le> length s"
  by (auto simp: scan_digits1_def Let_def length_dropWhile_le split: if_splits)

lemma scan_exp_shorter: "scan_exp s = Some (x, r) \<Longrightarrow> length r \<le> length s"
  by (auto simp: scan_exp_def le_SucI split: list.splits if_splits dest!: scan_digits1_shorter)

lemma scan_unsigned_shorter: "scan_unsigned s = Some (x, r) \<Longrightarrow> length r < length s"
  by (auto simp: scan_unsigned_def  split: option.splits prod.splits
      dest!: scan_int_shorter scan_frac_shorter scan_exp_shorter)

lemma scan_number_shorter: "scan_number s = Some (x, r) \<Longrightarrow> length r < length s"
  by (auto simp: scan_number_def split: list.splits if_splits dest!: scan_unsigned_shorter)

definition cons_token :: "token \<Rightarrow> token list option \<Rightarrow> token list option" where
  "cons_token t r = map_option (Cons t) r"

function tokenize :: "jsstring \<Rightarrow> token list option" where
  "tokenize [] = Some []"
| "tokenize (c # cs) =
     (if is_json_ws c then tokenize cs
      else if c = 0x5B then cons_token LBracket (tokenize cs)
      else if c = 0x5D then cons_token RBracket (tokenize cs)
      else if c = 0x7B then cons_token LBrace (tokenize cs)
      else if c = 0x7D then cons_token RBrace (tokenize cs)
      else if c = 0x3A then cons_token Colon (tokenize cs)
      else if c = 0x2C then cons_token Comma (tokenize cs)
      else if c = 0x22 then
        (case scan_string cs of
           None \<Rightarrow> None
         | Some (s, rest) \<Rightarrow> cons_token (TStr s) (tokenize rest))
      else if c = 0x2D \<or> is_digit c then
        (case scan_number (c # cs) of
           None \<Rightarrow> None
         | Some (x, rest) \<Rightarrow> cons_token (TNum x) (tokenize rest))
      else if take 4 (c # cs) = js ''null'' then cons_token TNull (tokenize (drop 3 cs))
      else if take 4 (c # cs) = js ''true'' then cons_token TTrue (tokenize (drop 3 cs))
      else if take 5 (c # cs) = js ''false'' then cons_token TFalse (tokenize (drop 4 cs))
      else None)"
  by pat_completeness auto
termination
proof (relation "measure length")
qed (auto dest: scan_string_shorter scan_number_shorter)

text \<open>
  The grammar over the tokens, as a pushdown automaton: \<open>want_value\<close> expects a value,
  \<open>value_done\<close> has completed one inside the enclosing arrays and objects of the stack.
\<close>

datatype frame = ArrF "json list" | ObjF "(jsstring \<times> json) list" jsstring

fun want_value :: "frame list \<Rightarrow> token list \<Rightarrow> json option"
  and value_done :: "frame list \<Rightarrow> json \<Rightarrow> token list \<Rightarrow> json option" where
  "want_value st ts =
     (case ts of
        TNull # ts' \<Rightarrow> value_done st JNull ts'
      | TTrue # ts' \<Rightarrow> value_done st (JBool True) ts'
      | TFalse # ts' \<Rightarrow> value_done st (JBool False) ts'
      | TNum x # ts' \<Rightarrow> value_done st (JNum x) ts'
      | TStr s # ts' \<Rightarrow> value_done st (JStr s) ts'
      | LBracket # RBracket # ts' \<Rightarrow> value_done st (JArr []) ts'
      | LBracket # ts' \<Rightarrow> want_value (ArrF [] # st) ts'
      | LBrace # RBrace # ts' \<Rightarrow> value_done st (JObj []) ts'
      | LBrace # TStr k # Colon # ts' \<Rightarrow> want_value (ObjF [] k # st) ts'
      | _ \<Rightarrow> None)"
| "value_done st v ts =
     (case st of
        [] \<Rightarrow> if ts = [] then Some v else None
      | ArrF acc # st' \<Rightarrow>
          (case ts of
             Comma # ts' \<Rightarrow> want_value (ArrF (acc @ [v]) # st') ts'
           | RBracket # ts' \<Rightarrow> value_done st' (JArr (acc @ [v])) ts'
           | _ \<Rightarrow> None)
      | ObjF ms k # st' \<Rightarrow>
          (case ts of
             Comma # TStr k' # Colon # ts' \<Rightarrow> want_value (ObjF (ms @ [(k, v)]) k' # st') ts'
           | RBrace # ts' \<Rightarrow> value_done st' (JObj (ms @ [(k, v)])) ts'
           | _ \<Rightarrow> None))"

definition JSON_parse :: "jsstring \<Rightarrow> js_error + json" where
  "JSON_parse text =
     (case tokenize text of
        None \<Rightarrow> Inl SyntaxError
      | Some ts \<Rightarrow> (case want_value [] ts of None \<Rightarrow> Inl SyntaxError | Some v \<Rightarrow> Inr v))"

section \<open>Files and console\<close>

text \<open>
  The file system maps a path to what is there: nothing, a regular file with its text, or a
  directory, which stands for every path that exists and can be neither read nor written as
  a file. The text of a file is the string that \<open>writeFileSync\<close> was given and that
  \<open>readFileSync\<close> with \<open>utf8\<close> returns; the UTF-8 coding between the two is not
  modelled. The console is the list of the lines logged so far.
\<close>

datatype fnode = RegularFile jsstring | Directory

record world =
  files :: "jsstring \<Rightarrow> fnode option"
  console :: "jsstring list"

definition console_log :: "jsstring \<Rightarrow> world \<Rightarrow> world" where
  "console_log line w = w\<lparr>console := console w @ [line]\<rparr>"

definition fs_existsSync :: "world \<Rightarrow> jsstring \<Rightarrow> bool" where
  "fs_existsSync w p = (files w p \<noteq> None)"

definition fs_readFileSync :: "world \<Rightarrow> jsstring \<Rightarrow> js_error + jsstring" where
  "fs_readFileSync w p =
     (case files w p of
        Some (RegularFile text) \<Rightarrow> Inr text
      | _ \<Rightarrow> Inl SystemError)"

definition fs_writeFileSync :: "jsstring \<Rightarrow> jsstring \<Rightarrow> world \<Rightarrow> js_error + world" where
  "fs_writeFileSync p text w =
     (case files w p of
        Some Directory \<Rightarrow> Inl SystemError
      | _ \<Rightarrow> Inr (w\<lparr>files := (files w)(p \<mapsto> RegularFile text)\<rparr>))"

section \<open>The application object\<close>

text \<open>
  The fields of \<open>WeatherApp\<close>. The favourites are the list of strings of the data model;
  the methods below take the object and the world, and return them updated.
\<close>

record WeatherApp =
  apiKey :: jsval
  baseUrl :: jsstring
  configFile :: jsstring
  favoriteCities :: "jsstring list"

subsection \<open>Credential store\<close>

definition msg_config_not_found :: jsstring where
  "msg_config_not_found =
     [0x8A2D, 0x5B9A, 0x30D5, 0x30A1, 0x30A4, 0x30EB, 0x304C, 0x898B, 0x3064, 0x304B, 0x308A,
      0x307E, 0x305B, 0x3093, 0x3002]"

text \<open>
  \<open>config.apiKey\<close>: a TypeError on \<open>null\<close>; the value of the last member of that name of
  an object; \<open>undefined\<close> on an object without it and on every other value.
\<close>

definition get_apiKey :: "json \<Rightarrow> js_error + jsval" where
  "get_apiKey config =
     (case config of
        JNull \<Rightarrow> Inl TypeError
      | JObj members \<Rightarrow>
          Inr (case map_of (rev members) (js ''apiKey'') of None \<Rightarrow> Undefined | Some v \<Rightarrow> Val v)
      | _ \<Rightarrow> Inr Undefined)"

text \<open>
  The \<open>try\<close> block of \<open>loadApiKey\<close>: \<open>Inl\<close> is what it throws, \<open>Inr (Some v)\<close> what it
  returns, \<open>Inr None\<close> that control leaves it without a \<open>return\<close>.
\<close>

definition loadApiKey_try :: "world \<Rightarrow> js_error + jsval option" where
  "loadApiKey_try w =
     (let configPath = js ''weather_config.json'' in
      if fs_existsSync w configPath then
        (case fs_readFileSync w configPath of
           Inl e \<Rightarrow> Inl e
         | Inr text \<Rightarrow>
             (case JSON_parse text of
                Inl e \<Rightarrow> Inl e
              | Inr config \<Rightarrow>
                  (case get_apiKey config of Inl e \<Rightarrow> Inl e | Inr v \<Rightarrow> Inr (Some v))))
      else Inr None)"

definition loadApiKey :: "world \<Rightarrow> (js_error + jsval) \<times> world" where
  "loadApiKey w =
     (case loadApiKey_try w of
        Inr (Some v) \<Rightarrow> (Inr v, w)
      | Inr None \<Rightarrow> (Inr (Val JNull), w)
      | Inl error \<Rightarrow> (Inr (Val JNull), console_log msg_config_not_found w))"

subsection \<open>Favorites store\<close>

definition msg_favorites_unreadable :: jsstring where
  "msg_favorites_unreadable =
     [0x304A, 0x6C17, 0x306B, 0x5165, 0x308A, 0x90FD, 0x5E02, 0x30D5, 0x30A1, 0x30A4, 0x30EB,
      0x306E, 0x8AAD, 0x307F, 0x8FBC, 0x307F, 0x306B, 0x5931, 0x6557, 0x3057, 0x307E, 0x3057,
      0x305F, 0x3002]"

definition favoritesFile :: jsstring where
  "favoritesFile = js ''favorite_cities.json''"

definition loadFavoriteCities_try :: "world \<Rightarrow> js_error + json option" where
  "loadFavoriteCities_try w =
     (if fs_existsSync w favoritesFile then
        (case fs_readFileSync w favoritesFile of
           Inl e \<Rightarrow> Inl e
         | Inr text \<Rightarrow>
             (case JSON_parse text of Inl e \<Rightarrow> Inl e | Inr v \<Rightarrow> Inr (Some v)))
      else Inr None)"

definition loadFavoriteCities :: "world \<Rightarrow> (js_error + json) \<times> world" where
  "loadFavoriteCities w =
     (case loadFavoriteCities_try w of
        Inr (Some v) \<Rightarrow> (Inr v, w)
      | Inr None \<Rightarrow> (Inr (JArr []), w)
      | Inl error \<Rightarrow> (Inr (JArr []), console_log msg_favorites_unreadable w))"

definition saveFavoriteCities :: "WeatherApp \<Rightarrow> world \<Rightarrow> js_error + world" where
  "saveFavoriteCities app w =
     fs_writeFileSync favoritesFile (JSON_stringify_strings (favoriteCities app)) w"

definition added_pre :: jsstring where
  "added_pre = [0x2705] @ js '' '' @ [0x22]"

definition added_post :: jsstring where
  "added_post =
     [0x22] @ js '' '' @ [0x3092, 0x304A, 0x6C17, 0x306B, 0x5165, 0x308A, 0x306B, 0x8FFD,
      0x52A0, 0x3057, 0x307E, 0x3057, 0x305F, 0x3002]"

definition already_post :: jsstring where
  "already_post =
     [0x22] @ js '' '' @ [0x306F, 0x65E2, 0x306B, 0x304A, 0x6C17, 0x306B, 0x5165, 0x308A,
      0x306B, 0x767B, 0x9332, 0x3055, 0x308C, 0x3066, 0x3044, 0x307E, 0x3059, 0x3002]"

definition removed_post :: jsstring where
  "removed_post =
     [0x22] @ js '' '' @ [0x3092, 0x304A, 0x6C17, 0x306B, 0x5165, 0x308A, 0x304B, 0x3089,
      0x524A, 0x9664, 0x3057, 0x307E, 0x3057, 0x305F, 0x3002]"

definition notreg_post :: jsstring where
  "notreg_post =
     [0x22] @ js '' '' @ [0x306F, 0x304A, 0x6C17, 0x306B, 0x5165, 0x308A, 0x306B, 0x767B,
      0x9332, 0x3055, 0x308C, 0x3066, 0x3044, 0x307E, 0x305B, 0x3093, 0x3002]"

text \<open>The four messages of the store; each stands for one outcome of add and remove.\<close>

definition msg_added :: "jsstring \<Rightarrow> jsstring" where
  "msg_added city = added_pre @ city @ added_post"

definition msg_already_present :: "jsstring \<Rightarrow> jsstring" where
  "msg_already_present city = [0x22] @ city @ already_post"

definition msg_removed :: "jsstring \<Rightarrow> jsstring" where
  "msg_removed city = added_pre @ city @ removed_post"

definition msg_not_found :: "jsstring \<Rightarrow> jsstring" where
  "msg_not_found city = [0x22] @ city @ notreg_post"

text \<open>
  \<open>includes\<close> and \<open>indexOf\<close> compare a string with the elements code unit by code
  unit; \<open>indexOf\<close> returns the first index, or \<open>-1\<close>; \<open>splice(index, 1)\<close> removes the
  element at the index.
\<close>

fun Array_includes :: "'a list \<Rightarrow> 'a \<Rightarrow> bool" where
  "Array_includes [] x = False"
| "Array_includes (y # ys) x = (y = x \<or> Array_includes ys x)"

fun indexOf_from :: "int \<Rightarrow> 'a list \<Rightarrow> 'a \<Rightarrow> int" where
  "indexOf_from i [] x = - 1"
| "indexOf_from i (y # ys) x = (if y = x then i else indexOf_from (i + 1) ys x)"

definition indexOf :: "'a list \<Rightarrow> 'a \<Rightarrow> int" where
  "indexOf xs x = indexOf_from 0 xs x"

definition splice1 :: "'a list \<Rightarrow> int \<Rightarrow> 'a list" where
  "splice1 xs index = take (nat index) xs @ drop (nat index + 1) xs"

definition addFavoriteCity ::
  "jsstring \<Rightarrow> WeatherApp \<Rightarrow> world \<Rightarrow> (js_error + unit) \<times> WeatherApp \<times> world" where
  "addFavoriteCity city app w =
     (if \<not> Array_includes (favoriteCities app) city then
        (let app' = app\<lparr>favoriteCities := favoriteCities app @ [city]\<rparr> in
         case saveFavoriteCities app' w of
           Inl e \<Rightarrow> (Inl e, app', w)
         | Inr w' \<Rightarrow> (Inr (), app', console_log (msg_added city) w'))
      else (Inr (), app, console_log (msg_already_present city) w))"

definition removeFavoriteCity ::
  "jsstring \<Rightarrow> WeatherApp \<Rightarrow> world \<Rightarrow> (js_error + unit) \<times> WeatherApp \<times> world" where
  "removeFavoriteCity city app w =
     (let index = indexOf (favoriteCities app) city in
      if index > - 1 then
        (let app' = app\<lparr>favoriteCities := splice1 (favoriteCities app) index\<rparr> in
         case saveFavoriteCities app' w of
           Inl e \<Rightarrow> (Inl e, app', w)
         | Inr w' \<Rightarrow> (Inr (), app', console_log (msg_removed city) w'))
      else (Inr (), app, console_log (msg_not_found city) w))"

subsection \<open>Menu handler\<close>

text \<open>
  \<open>String.prototype.trim\<close> removes the white space and line terminators of ECMAScript
  from both ends.
\<close>

definition is_white_space :: "16 word \<Rightarrow> bool" where
  "is_white_space c \<longleftrightarrow>
     c \<in> {0x09, 0x0A, 0x0B, 0x0C, 0x0D, 0x20, 0xA0, 0x1680, 0x2028, 0x2029, 0x202F, 0x205F,
          0x3000, 0xFEFF}
     \<or> (0x2000 \<le> c \<and> c \<le> 0x200A)"

definition trim :: "jsstring \<Rightarrow> jsstring" where
  "trim s = rev (dropWhile is_white_space (rev (dropWhile is_white_space s)))"

text \<open>
  \<open>handleAddFavorite\<close>, with the line \<open>readline.question\<close> returns as the argument
  \<open>input\<close>. An empty string is falsy.
\<close>

definition handleAddFavorite ::
  "jsstring \<Rightarrow> WeatherApp \<Rightarrow> world \<Rightarrow> (js_error + unit) \<times> WeatherApp \<times> world" where
  "handleAddFavorite input app w =
     (let city = input in
      if trim city \<noteq> [] then addFavoriteCity (trim city) app w
      else (Inr (), app, w))"

text \<open>The object and the world in what a method returns.\<close>

definition app_of :: "(js_error + 'a) \<times> WeatherApp \<times> world \<Rightarrow> WeatherApp" where
  "app_of r = fst (snd r)"

definition world_of :: "(js_error + 'a) \<times> WeatherApp \<times> world \<Rightarrow> world" where
  "world_of r = snd (snd r)"

section \<open>Weather client\<close>

text \<open>
  \<open>axios.get(url, {params})\<close> is the environment: the promise resolves with a response
  (a 2xx status), or rejects with an error that carries the response when one was
  received (\<open>error.response\<close>) and none otherwise (a network failure).
\<close>

record request =
  url :: jsstring
  params :: "(jsstring \<times> jsval) list"

record 'd response =
  status :: int
  data :: 'd

datatype 'd axios_outcome = Resolved "'d response" | Rejected "'d response option"

text \<open>\<open>error.response?.status === n\<close>\<close>

definition response_status_is :: "'d response option \<Rightarrow> int \<Rightarrow> bool" where
  "response_status_is r n = (case r of None \<Rightarrow> False | Some resp \<Rightarrow> status resp = n)"

definition msg_city_not_found :: jsstring where
  "msg_city_not_found = [0x90FD, 0x5E02, 0x304C, 0x898B, 0x3064, 0x304B, 0x308A, 0x307E, 0x305B, 0x3093, 0x3002, 0x90FD, 0x5E02, 0x540D, 0x3092, 0x78BA, 0x8A8D, 0x3057, 0x3066, 0x304F, 0x3060, 0x3055, 0x3044, 0x3002]"

definition msg_invalid_api_key :: jsstring where
  "msg_invalid_api_key = js ''API'' @ [0x30AD, 0x30FC, 0x304C, 0x7121, 0x52B9, 0x3067, 0x3059, 0x3002, 0x8A2D, 0x5B9A, 0x3092, 0x78BA, 0x8A8D, 0x3057, 0x3066, 0x304F, 0x3060, 0x3055, 0x3044, 0x3002]"

definition msg_weather_failed :: jsstring where
  "msg_weather_failed = [0x5929, 0x6C17, 0x60C5, 0x5831, 0x306E, 0x53D6, 0x5F97, 0x306B, 0x5931, 0x6557, 0x3057, 0x307E, 0x3057, 0x305F, 0x3002]"

definition msg_forecast_failed :: jsstring where
  "msg_forecast_failed = [0x5929, 0x6C17, 0x4E88, 0x5831, 0x306E, 0x53D6, 0x5F97, 0x306B, 0x5931, 0x6557, 0x3057, 0x307E, 0x3057, 0x305F, 0x3002]"

text \<open>The spec's names for the errors the client throws.\<close>

definition CityNotFound :: js_error where
  "CityNotFound = Error msg_city_not_found"

definition InvalidCredential :: js_error where
  "InvalidCredential = Error msg_invalid_api_key"

definition FetchFailed :: js_error where
  "FetchFailed = Error msg_weather_failed"

definition ForecastFetchFailed :: js_error where
  "ForecastFetchFailed = Error msg_forecast_failed"

definition weather_request :: "WeatherApp \<Rightarrow> string \<Rightarrow> jsstring \<Rightarrow> request" where
  "weather_request app endpoint city =
     \<lparr> url = baseUrl app @ js endpoint,
       params = [(js ''q'', Val (JStr city)), (js ''appid'', apiKey app),
                 (js ''units'', Val (JStr (js ''metric''))), (js ''lang'', Val (JStr (js ''ja'')))] \<rparr>"

definition getCurrentWeather ::
  "(request \<Rightarrow> 'd axios_outcome) \<Rightarrow> WeatherApp \<Rightarrow> jsstring \<Rightarrow> js_error + 'd" where
  "getCurrentWeather axios_get app city =
     (case axios_get (weather_request app ''/weather'' city) of
        Resolved resp \<Rightarrow> Inr (data resp)
      | Rejected r \<Rightarrow>
          if response_status_is r 404 then Inl CityNotFound
          else if response_status_is r 401 then Inl InvalidCredential
          else Inl FetchFailed)"

definition getForecast ::
  "(request \<Rightarrow> 'd axios_outcome) \<Rightarrow> WeatherApp \<Rightarrow> jsstring \<Rightarrow> js_error + 'd" where
  "getForecast axios_get app city =
     (case axios_get (weather_request app ''/forecast'' city) of
        Resolved resp \<Rightarrow> Inr (data resp)
      | Rejected r \<Rightarrow> Inl ForecastFetchFailed)"

section \<open>Numbers as text\<close>

text \<open>
  What the runtime provides and the application only calls: the conversion of a number to a
  string in a template literal, and the local date and time of day of an instant in the
  \<open>ja-JP\<close> locale. The two date functions take the seconds the API sends, and stand for
  \<open>new Date(seconds * 1000).toLocaleDateString('ja-JP')\<close> and \<open>toLocaleTimeString\<close>.
\<close>

record runtime =
  Number_toString :: "number \<Rightarrow> jsstring"
  toLocaleDateString :: "number \<Rightarrow> jsstring"
  toLocaleTimeString :: "number \<Rightarrow> jsstring"

fun decimal :: "nat \<Rightarrow> jsstring" where
  "decimal n = (if n < 10 then [of_nat (48 + n)] else decimal (n div 10) @ [of_nat (48 + n mod 10)])"

declare decimal.simps [simp del]

text \<open>
  \<open>Number.prototype.toFixed(1)\<close> on a finite number: the sign; then, for a magnitude of
  \<open>10\<^sup>2\<^sup>1\<close> or more, the ordinary conversion to a string; otherwise the integer \<open>n\<close>
  with \<open>n / 10\<close> nearest to the magnitude (the larger one of two), written with a point
  before its last digit.
\<close>

definition toFixed1 :: "runtime \<Rightarrow> number \<Rightarrow> jsstring" where
  "toFixed1 rt x =
     (let s = (if x < 0 then js ''-'' else []); a = \<bar>x\<bar> in
      if a \<ge> 10 ^ 21 then s @ Number_toString rt a
      else (let n = nat \<lfloor>a * 10 + 1 / 2\<rfloor> in
            s @ decimal (n div 10) @ js ''.'' @ decimal (n mod 10)))"

text \<open>\<open>Math.min\<close> and \<open>Math.max\<close> of no arguments are the infinities.\<close>

datatype extended = Finite number | PosInfinity | NegInfinity

definition Math_min :: "number list \<Rightarrow> extended" where
  "Math_min xs = (case xs of [] \<Rightarrow> PosInfinity | y # ys \<Rightarrow> Finite (foldl min y ys))"

definition Math_max :: "number list \<Rightarrow> extended" where
  "Math_max xs = (case xs of [] \<Rightarrow> NegInfinity | y # ys \<Rightarrow> Finite (foldl max y ys))"

definition extended_toFixed1 :: "runtime \<Rightarrow> extended \<Rightarrow> jsstring" where
  "extended_toFixed1 rt x =
     (case x of
        Finite y \<Rightarrow> toFixed1 rt y
      | PosInfinity \<Rightarrow> js ''Infinity''
      | NegInfinity \<Rightarrow> js ''-Infinity'')"

text \<open>
  Division of doubles: the exact quotient rounded to the nearest double, ties to the even
  significand, with 53 bits above the exponent \<open>-1022\<close> and steps of \<open>2\<^sup>-\<^sup>1\<^sup>0\<^sup>7\<^sup>4\<close> below.
  (The quotient of a double by 1000 is never too large for a double.)
\<close>

definition pow2 :: "int \<Rightarrow> rat" where
  "pow2 e = (if 0 \<le> e then 2 ^ nat e else 1 / 2 ^ nat (- e))"

definition round_half_even :: "rat \<Rightarrow> int" where
  "round_half_even q =
     (let f = \<lfloor>q\<rfloor>; r = q - of_int f in
      if r < 1 / 2 then f else if r > 1 / 2 then f + 1 else if even f then f else f + 1)"

text \<open>The \<open>e\<close> with \<open>2\<^sup>e \<le> a < 2\<^sup>e\<^sup>+\<^sup>1\<close>, for a positive \<open>a\<close>.\<close>

definition binary_exponent :: "rat \<Rightarrow> int" where
  "binary_exponent a =
     (let (p, q) = quotient_of a; d = bitlen p - bitlen q in
      if pow2 d \<le> a then d else d - 1)"

definition round_to_double :: "rat \<Rightarrow> number" where
  "round_to_double x =
     (if x = 0 then 0
      else (let e = binary_exponent \<bar>x\<bar>; q = max (e - 52) (- 1074) in
            sgn x * of_int (round_half_even (\<bar>x\<bar> / pow2 q)) * pow2 q))"

definition Number_divide :: "number \<Rightarrow> number \<Rightarrow> number" where
  "Number_divide x y = round_to_double (x / y)"

section \<open>Weather data\<close>

text \<open>The parts of the API's JSON bodies that the application reads.\<close>

record main_fields =
  temp :: number
  feels_like :: number
  humidity :: number
  pressure :: number

record wind_fields =
  speed :: number

record condition =
  description :: jsstring

record sys_fields =
  country :: jsstring
  sunrise :: number
  sunset :: number

record observation =
  main :: main_fields
  weather :: "condition list"
  wind :: wind_fields

record forecast_item = observation +
  dt :: number

record current_weather = observation +
  name :: jsstring
  sys :: sys_fields
  visibility :: "number option"

section \<open>Presenter: current weather\<close>

definition rule_line :: jsstring where
  "rule_line = replicate 32 0x2501"

definition hdr_current :: jsstring where
  "hdr_current = [0x000A, 0xD83C, 0xDF0D] @ js '' '' @ [0x73FE, 0x5728, 0x306E, 0x5929, 0x6C17, 0x60C5, 0x5831]"

definition lbl_city :: jsstring where
  "lbl_city = [0xD83D, 0xDCCD] @ js '' '' @ [0x90FD, 0x5E02] @ js '': ''"

definition lbl_temp :: jsstring where
  "lbl_temp = [0xD83C, 0xDF21, 0xFE0F] @ js ''  '' @ [0x6C17, 0x6E29] @ js '': ''"

definition lbl_feels :: jsstring where
  "lbl_feels = [0x00B0] @ js ''C ('' @ [0x4F53, 0x611F, 0x6E29, 0x5EA6] @ js '': ''"

definition lbl_feels_end :: jsstring where
  "lbl_feels_end = [0x00B0] @ js ''C)''"

definition lbl_weather :: jsstring where
  "lbl_weather = [0x2601, 0xFE0F] @ js ''  '' @ [0x5929, 0x6C17] @ js '': ''"

definition lbl_humidity :: jsstring where
  "lbl_humidity = [0xD83D, 0xDCA7] @ js '' '' @ [0x6E7F, 0x5EA6] @ js '': ''"

definition lbl_wind :: jsstring where
  "lbl_wind = [0xD83C, 0xDF2A, 0xFE0F] @ js ''  '' @ [0x98A8, 0x901F] @ js '': ''"

definition lbl_pressure :: jsstring where
  "lbl_pressure = [0xD83D, 0xDCCA] @ js '' '' @ [0x6C17, 0x5727] @ js '': ''"

definition lbl_visibility :: jsstring where
  "lbl_visibility = [0xD83D, 0xDC41, 0xFE0F] @ js ''  '' @ [0x8996, 0x754C] @ js '': ''"

definition lbl_sunrise :: jsstring where
  "lbl_sunrise = [0xD83C, 0xDF05] @ js '' '' @ [0x65E5, 0x306E, 0x51FA] @ js '': ''"

definition lbl_sunset :: jsstring where
  "lbl_sunset = [0xD83C, 0xDF07] @ js '' '' @ [0x65E5, 0x306E, 0x5165] @ js '': ''"

definition visibility_line :: "runtime \<Rightarrow> number \<Rightarrow> jsstring" where
  "visibility_line rt v = lbl_visibility @ toFixed1 rt (Number_divide v 1000) @ js '' km''"

text \<open>
  \<open>displayCurrentWeather\<close>, with its argument \<open>data\<close> as \<open>report\<close>:
  \<open>data.weather[0].description\<close> throws a TypeError on an
  empty \<open>weather\<close>, after the first four lines were logged. In \<open>if (data.visibility)\<close>
  the field is absent (\<open>undefined\<close>) or a number, and of the numbers zero is the falsy
  one.
\<close>

definition displayCurrentWeather ::
  "runtime \<Rightarrow> current_weather \<Rightarrow> world \<Rightarrow> (js_error + unit) \<times> world" where
  "displayCurrentWeather rt report w =
     (let w1 = console_log hdr_current w;
          w2 = console_log rule_line w1;
          w3 = console_log (lbl_city @ name report @ js '', '' @ country (sys report)) w2;
          w4 = console_log (lbl_temp @ Number_toString rt (temp (main report)) @ lbl_feels
                  @ Number_toString rt (feels_like (main report)) @ lbl_feels_end) w3
      in case weather report of
           [] \<Rightarrow> (Inl TypeError, w4)
         | c # _ \<Rightarrow>
            (let w5 = console_log (lbl_weather @ description c) w4;
                 w6 = console_log (lbl_humidity @ Number_toString rt (humidity (main report)) @ js ''%'') w5;
                 w7 = console_log (lbl_wind @ Number_toString rt (speed (wind report)) @ js '' m/s'') w6;
                 w8 = console_log (lbl_pressure @ Number_toString rt (pressure (main report)) @ js '' hPa'') w7;
                 w9 = (case visibility report of
                         None \<Rightarrow> w8
                       | Some v \<Rightarrow> if v \<noteq> 0 then console_log (visibility_line rt v) w8 else w8);
                 w10 = console_log (lbl_sunrise @ toLocaleTimeString rt (sunrise (sys report))) w9;
                 w11 = console_log (lbl_sunset @ toLocaleTimeString rt (sunset (sys report))) w10
             in (Inr (), console_log (rule_line @ [0x0A]) w11)))"

section \<open>Forecast aggregator\<close>

record daily_forecast =
  date :: jsstring
  temps :: "number list"
  day_weather :: jsstring
  day_humidity :: number
  windSpeed :: number

text \<open>
  The object \<open>dailyForecasts\<close> is the list of its own properties in the order of their
  creation. Reading a property that the object does not own finds the members of
  \<open>Object.prototype\<close>, which are truthy and have no \<open>temps\<close>.
\<close>

definition Object_prototype_names :: "jsstring list" where
  "Object_prototype_names =
     map js [''constructor'', ''__defineGetter__'', ''__defineSetter__'', ''hasOwnProperty'',
             ''__lookupGetter__'', ''__lookupSetter__'', ''isPrototypeOf'',
             ''propertyIsEnumerable'', ''toString'', ''valueOf'', ''__proto__'',
             ''toLocaleString'']"

datatype 'a property = Own 'a | Inherited | Missing

definition get_property :: "(jsstring \<times> 'a) list \<Rightarrow> jsstring \<Rightarrow> 'a property" where
  "get_property obj k =
     (case map_of obj k of
        Some v \<Rightarrow> Own v
      | None \<Rightarrow> if k \<in> set Object_prototype_names then Inherited else Missing)"

definition push_temp ::
  "jsstring \<Rightarrow> number \<Rightarrow> (jsstring \<times> daily_forecast) list \<Rightarrow> (jsstring \<times> daily_forecast) list" where
  "push_temp k t obj =
     map (\<lambda>(k', b). if k' = k then (k', b\<lparr>temps := temps b @ [t]\<rparr>) else (k', b)) obj"

text \<open>The body of the \<open>forEach\<close> over \<open>data.list\<close>.\<close>

definition add_item ::
  "runtime \<Rightarrow> forecast_item \<Rightarrow> (jsstring \<times> daily_forecast) list
     \<Rightarrow> js_error + (jsstring \<times> daily_forecast) list" where
  "add_item rt item dailyForecasts =
     (let dateKey = toLocaleDateString rt (dt item) in
      case get_property dailyForecasts dateKey of
        Own b \<Rightarrow> Inr (push_temp dateKey (temp (main item)) dailyForecasts)
      | Inherited \<Rightarrow> Inl TypeError
      | Missing \<Rightarrow>
          (case weather item of
             [] \<Rightarrow> Inl TypeError
           | c # _ \<Rightarrow>
               Inr (push_temp dateKey (temp (main item))
                 (dailyForecasts @
                   [(dateKey, \<lparr> date = dateKey, temps = [], day_weather = description c,
                                day_humidity = humidity (main item),
                                windSpeed = speed (wind item) \<rparr>)]))))"

fun group_items ::
  "runtime \<Rightarrow> forecast_item list \<Rightarrow> (jsstring \<times> daily_forecast) list
     \<Rightarrow> js_error + (jsstring \<times> daily_forecast) list" where
  "group_items rt [] dailyForecasts = Inr dailyForecasts"
| "group_items rt (item # items) dailyForecasts =
     (case add_item rt item dailyForecasts of
        Inl e \<Rightarrow> Inl e
      | Inr dailyForecasts' \<Rightarrow> group_items rt items dailyForecasts')"

text \<open>
  \<open>Object.values\<close>: the properties whose name is an array index (a canonical decimal
  numeral below \<open>2\<^sup>3\<^sup>2 - 1\<close>) first, in the order of the numbers, then the others in the
  order of their creation.
\<close>

definition is_array_index :: "jsstring \<Rightarrow> bool" where
  "is_array_index k \<longleftrightarrow>
     k \<noteq> [] \<and> (\<forall>c\<in>set k. is_digit c) \<and> (length k = 1 \<or> hd k \<noteq> 0x30)
     \<and> digits_value k < 2 ^ 32 - 1"

definition Object_values :: "(jsstring \<times> 'a) list \<Rightarrow> 'a list" where
  "Object_values obj =
     map snd (sort_key (\<lambda>(k, v). digits_value k) (filter (\<lambda>(k, v). is_array_index k) obj)
              @ filter (\<lambda>(k, v). \<not> is_array_index k) obj)"

text \<open>
  The days that \<open>displayForecast\<close> renders, \<open>Object.values(dailyForecasts).slice(0, 5)\<close>, from
  \<open>data.list\<close>.
\<close>

definition forecast_days :: "runtime \<Rightarrow> forecast_item list \<Rightarrow> js_error + daily_forecast list" where
  "forecast_days rt items =
     (case group_items rt items [] of
        Inl e \<Rightarrow> Inl e
      | Inr dailyForecasts \<Rightarrow> Inr (take 5 (Object_values dailyForecasts)))"

section \<open>Presenter: forecast\<close>

definition hdr_forecast :: jsstring where
  "hdr_forecast = [0x000A, 0xD83D, 0xDCC5] @ js '' 5'' @ [0x65E5, 0x9593, 0x5929, 0x6C17, 0x4E88, 0x5831]"

definition lbl_day :: jsstring where
  "lbl_day = [0xD83D, 0xDCC6] @ js '' ''"

definition lbl_day_temp :: jsstring where
  "lbl_day_temp = js ''   '' @ [0xD83C, 0xDF21, 0xFE0F] @ js ''  ''"

definition lbl_range_sep :: jsstring where
  "lbl_range_sep = [0x00B0] @ js ''C - ''"

definition lbl_celsius :: jsstring where
  "lbl_celsius = [0x00B0] @ js ''C''"

definition lbl_day_weather :: jsstring where
  "lbl_day_weather = js ''   '' @ [0x2601, 0xFE0F] @ js ''  ''"

definition lbl_day_humidity :: jsstring where
  "lbl_day_humidity = js ''   '' @ [0xD83D, 0xDCA7] @ js '' '' @ [0x6E7F, 0x5EA6] @ js '': ''"

definition lbl_day_wind :: jsstring where
  "lbl_day_wind = js ''   '' @ [0xD83C, 0xDF2A, 0xFE0F] @ js ''  '' @ [0x98A8, 0x901F] @ js '': ''"

definition temperature_line :: "runtime \<Rightarrow> daily_forecast \<Rightarrow> jsstring" where
  "temperature_line rt forecast =
     (let minTemp = Math_min (temps forecast);
          maxTemp = Math_max (temps forecast)
      in lbl_day_temp @ extended_toFixed1 rt minTemp @ lbl_range_sep
           @ extended_toFixed1 rt maxTemp @ lbl_celsius)"

text \<open>The six lines of one day.\<close>

definition day_lines :: "runtime \<Rightarrow> daily_forecast \<Rightarrow> jsstring list" where
  "day_lines rt forecast =
     [lbl_day @ date forecast,
      temperature_line rt forecast,
      lbl_day_weather @ day_weather forecast,
      lbl_day_humidity @ Number_toString rt (day_humidity forecast) @ js ''%'',
      lbl_day_wind @ Number_toString rt (windSpeed forecast) @ js '' m/s'',
      []]"

definition displayForecast ::
  "runtime \<Rightarrow> forecast_item list \<Rightarrow> world \<Rightarrow> (js_error + unit) \<times> world" where
  "displayForecast rt data_list w =
     (let w1 = console_log hdr_forecast w;
          w2 = console_log rule_line w1
      in case forecast_days rt data_list of
           Inl e \<Rightarrow> (Inl e, w2)
         | Inr days \<Rightarrow>
             (let w3 = fold (\<lambda>forecast. fold console_log (day_lines rt forecast)) days w2
              in (Inr (), console_log (rule_line @ [0x0A]) w3)))"

section \<open>The aggregation as the specification words it\<close>

text \<open>
  The keys in the order in which they are first seen; the bucket of a day from the entries
  of that day: the temperatures of all of them, and description, humidity and wind speed of
  the first. A plain key is one that is neither an array index nor the name of a member of
  \<open>Object.prototype\<close>: every text that \<open>toLocaleDateString('ja-JP')\<close> returns is one,
  a date as \<open>2024/1/15\<close> as well as \<open>Invalid Date\<close>.
\<close>

definition dateKey_of :: "runtime \<Rightarrow> forecast_item \<Rightarrow> jsstring" where
  "dateKey_of rt item = toLocaleDateString rt (dt item)"

definition spec_first_seen :: "'a list \<Rightarrow> 'a list" where
  "spec_first_seen ks = rev (remdups (rev ks))"

definition spec_day :: "runtime \<Rightarrow> forecast_item list \<Rightarrow> jsstring \<Rightarrow> daily_forecast" where
  "spec_day rt items k =
     (let same_day = filter (\<lambda>item. dateKey_of rt item = k) items;
          first = hd same_day
      in \<lparr> date = k,
           temps = map (\<lambda>item. temp (main item)) same_day,
           day_weather = description (hd (weather first)),
           day_humidity = humidity (main first),
           windSpeed = speed (wind first) \<rparr>)"

definition plain_key :: "jsstring \<Rightarrow> bool" where
  "plain_key k \<longleftrightarrow> \<not> is_array_index k \<and> k \<notin> set Object_prototype_names"

text \<open>
  Reading back a text of the form \<open>digits.digit\<close>, with or without a minus sign, as the
  number it denotes.
\<close>

definition spec_read_unsigned1 :: "jsstring \<Rightarrow> rat option" where
  "spec_read_unsigned1 s =
     (case rev s of
        d # p # ds \<Rightarrow>
          if p = 0x2E \<and> is_digit d \<and> ds \<noteq> [] \<and> (\<forall>c\<in>set ds. is_digit c)
          then Some (of_nat (digits_value (rev ds)) + of_nat (digits_value [d]) / 10)
          else None
      | _ \<Rightarrow> None)"

definition spec_read_fixed1 :: "jsstring \<Rightarrow> rat option" where
  "spec_read_fixed1 s =
     (case s of
        [] \<Rightarrow> None
      | c # cs \<Rightarrow>
          if c = 0x2D then map_option uminus (spec_read_unsigned1 cs)
          else spec_read_unsigned1 s)"

text \<open>A line of the console that starts with a given label.\<close>

definition starts_with :: "jsstring \<Rightarrow> jsstring \<Rightarrow> bool" where
  "starts_with label line \<longleftrightarrow> take (length label) line = label"

text \<open>The lines a call has logged: those of the console after it that were not there before.\<close>

definition logged :: "world \<Rightarrow> (js_error + unit) \<times> world \<Rightarrow> jsstring list" where
  "logged w r = drop (length (console w)) (console (snd r))"

text \<open>The object that the aggregation builds, from the entries it has read.\<close>

definition spec_object :: "runtime \<Rightarrow> forecast_item list \<Rightarrow> (jsstring \<times> daily_forecast) list" where
  "spec_object rt items =
     map (\<lambda>k. (k, spec_day rt items k)) (spec_first_seen (map (dateKey_of rt) items))"

text \<open>
  The lines of \<open>displayCurrentWeather\<close> before and after the visibility line, and the
  visibility line or none.
\<close>

definition head_lines :: "runtime \<Rightarrow> current_weather \<Rightarrow> condition \<Rightarrow> jsstring list" where
  "head_lines rt report c =
     [hdr_current, rule_line,
      lbl_city @ name report @ js '', '' @ country (sys report),
      lbl_temp @ Number_toString rt (temp (main report)) @ lbl_feels
        @ Number_toString rt (feels_like (main report)) @ lbl_feels_end,
      lbl_weather @ description c,
      lbl_humidity @ Number_toString rt (humidity (main report)) @ js ''%'',
      lbl_wind @ Number_toString rt (speed (wind report)) @ js '' m/s'',
      lbl_pressure @ Number_toString rt (pressure (main report)) @ js '' hPa'']"

definition tail_lines :: "runtime \<Rightarrow> current_weather \<Rightarrow> jsstring list" where
  "tail_lines rt report =
     [lbl_sunrise @ toLocaleTimeString rt (sunrise (sys report)),
      lbl_sunset @ toLocaleTimeString rt (sunset (sys report)),
      rule_line @ [0x0A]]"

definition visibility_lines :: "runtime \<Rightarrow> number option \<Rightarrow> jsstring list" where
  "visibility_lines rt v =
     (case v of None \<Rightarrow> [] | Some x \<Rightarrow> if x \<noteq> 0 then [visibility_line rt x] else [])"

section \<open>Example inputs\<close>

definition example_app :: WeatherApp where
  "example_app = \<lparr> apiKey = Val (JStr (js ''k'')),
                   baseUrl = js ''https://api.openweathermap.org/data/2.5'',
                   configFile = js ''weather_config.json'',
                   favoriteCities = [js ''Tokyo'', js ''London''] \<rparr>"

definition empty_world :: world where
  "empty_world = \<lparr> files = Map.empty, console = [] \<rparr>"

definition broken_config_world :: world where
  "broken_config_world =
     \<lparr> files = [js ''weather_config.json'' \<mapsto> RegularFile (js ''{apiKey: oops'')], console = [] \<rparr>"

text \<open>
  A runtime for the examples: days of 86400 seconds counted from the first of January 2024,
  numbers in template literals written as their integer part.
\<close>

definition example_runtime :: runtime where
  "example_runtime =
     \<lparr> Number_toString = (\<lambda>x. decimal (nat \<lfloor>x\<rfloor>)),
       toLocaleDateString = (\<lambda>t. js ''2024/1/'' @ decimal (nat \<lfloor>t / 86400\<rfloor> + 1)),
       toLocaleTimeString = (\<lambda>t. js ''6:00:00'') \<rparr>"

definition example_item :: "number \<Rightarrow> number \<Rightarrow> forecast_item" where
  "example_item day t =
     \<lparr> main = \<lparr> temp = t, feels_like = t, humidity = 40, pressure = 1012 \<rparr>,
       weather = [\<lparr> description = js ''clear sky'' \<rparr>],
       wind = \<lparr> speed = 3 \<rparr>,
       dt = 86400 * day \<rparr>"

definition example_day :: "nat \<Rightarrow> number list \<Rightarrow> daily_forecast" where
  "example_day n ts =
     \<lparr> date = js ''2024/1/'' @ decimal n, temps = ts, day_weather = js ''clear sky'',
       day_humidity = 40, windSpeed = 3 \<rparr>"

definition seven_days :: "forecast_item list" where
  "seven_days =
     [example_item 0 10, example_item 0 20, example_item 1 5, example_item 2 6, example_item 3 7,
      example_item 4 8, example_item 5 9, example_item 6 11, example_item 1 30]"

definition two_days :: "forecast_item list" where
  "two_days = [example_item 0 10, example_item 0 20, example_item 1 5]"

definition example_current :: "number option \<Rightarrow> current_weather" where
  "example_current v =
     \<lparr> main = \<lparr> temp = 43 / 2, feels_like = 20, humidity = 40, pressure = 1012 \<rparr>,
       weather = [\<lparr> description = js ''clear sky'' \<rparr>],
       wind = \<lparr> speed = 16 / 5 \<rparr>,
       name = js ''Tokyo'',
       sys = \<lparr> country = js ''JP'', sunrise = 1700000000, sunset = 1700040000 \<rparr>,
       visibility = v \<rparr>"

section \<open>Parsing what stringify wrote\<close>

declare scan_string.simps [simp del]

lemma unat_of_nat_16: "k < 65536 \<Longrightarrow> unat (of_nat k :: 16 word) = k"
  by (simp add: unat_of_nat)

lemma hex_value_hex_digit:
  assumes "n < 16"
  shows "hex_value (hex_digit n) = Some n"
proof -
  define w :: "16 word" where "w = of_nat ((if n < 10 then 48 else 87) + n)"
  have uw: "unat w = (if n < 10 then 48 else 87) + n"
    unfolding w_def using assms by (intro unat_of_nat_16) simp
  have "hex_digit n = w"
    by (simp add: hex_digit_def w_def)
  moreover have "hex_value w = Some n"
    using uw assms by (simp add: hex_value_def word_le_nat_alt split: if_splits)
  ultimately show ?thesis by simp
qed

lemma unat_16_bound: "unat (c :: 16 word) < 65536"
  using unsigned_less [of c, where 'a = nat] by simp

lemma hex_recombine:
  "(of_nat (unat c div 4096 * 4096 + unat c div 256 mod 16 * 256 + unat c div 16 mod 16 * 16
      + unat c mod 16) :: 16 word) = c"
proof -
  define n where "n = unat c"
  have 1: "n = n div 16 * 16 + n mod 16" by simp
  have d1: "n div 256 = n div 16 div 16"
    using div_mult2_eq [of n 16 16] by simp
  have d2: "n div 4096 = n div 256 div 16"
    using div_mult2_eq [of n 256 16] by simp
  have 2: "n div 16 = n div 256 * 16 + n div 16 mod 16"
    unfolding d1 by simp
  have 3: "n div 256 = n div 4096 * 16 + n div 256 mod 16"
    unfolding d2 by simp
  have 4: "n div 4096 * 4096 = n div 4096 * 16 * 16 * 16" by simp
  have "n div 4096 * 4096 + n div 256 mod 16 * 256 + n div 16 mod 16 * 16 + n mod 16 = n"
    using 1 2 3 4 by linarith
  then have "(of_nat (unat c div 4096 * 4096 + unat c div 256 mod 16 * 256
      + unat c div 16 mod 16 * 16 + unat c mod 16) :: 16 word) = of_nat (unat c)"
    unfolding n_def by (simp only:)
  also have "\<dots> = c" by simp
  finally show ?thesis .
qed

lemma scan_string_close: "scan_string (0x22 # rest) = Some ([], rest)"
  by (simp add: scan_string.simps)

lemma scan_string_plain:
  "c \<noteq> 0x22 \<Longrightarrow> c \<noteq> 0x5C \<Longrightarrow> \<not> c < 0x20 \<Longrightarrow>
   scan_string (c # rest) = cons_result c (scan_string rest)"
  by (simp add: scan_string.simps)

lemma scan_string_simple:
  "simple_escape e = Some x \<Longrightarrow> e \<noteq> 0x75 \<Longrightarrow>
   scan_string (0x5C # e # rest) = cons_result x (scan_string rest)"
  by (simp add: scan_string.simps)

lemma scan_string_unicode:
  "hex_value h1 = Some a \<Longrightarrow> hex_value h2 = Some b \<Longrightarrow> hex_value h3 = Some c \<Longrightarrow>
   hex_value h4 = Some d \<Longrightarrow>
   scan_string (0x5C # 0x75 # h1 # h2 # h3 # h4 # rest)
     = cons_result (of_nat (a * 4096 + b * 256 + c * 16 + d)) (scan_string rest)"
  by (simp add: scan_string.simps)

lemma scan_unicode_escape:
  "scan_string (unicode_escape c @ rest) = cons_result c (scan_string rest)"
proof -
  have b: "unat c div 4096 < 16" "unat c div 256 mod 16 < 16" "unat c div 16 mod 16 < 16"
    "unat c mod 16 < 16"
    using unat_16_bound [of c] by auto
  have "scan_string (unicode_escape c @ rest)
      = scan_string (0x5C # 0x75 # hex_digit (unat c div 4096) # hex_digit (unat c div 256 mod 16)
          # hex_digit (unat c div 16 mod 16) # hex_digit (unat c mod 16) # rest)"
    by (simp add: unicode_escape_def)
  also have "\<dots> = cons_result (of_nat (unat c div 4096 * 4096 + unat c div 256 mod 16 * 256
      + unat c div 16 mod 16 * 16 + unat c mod 16)) (scan_string rest)"
    by (rule scan_string_unicode) (rule hex_value_hex_digit, rule b)+
  finally show ?thesis by (simp only: hex_recombine)
qed


lemma scan_quote_unit:
  "scan_string (quote_unit c @ rest) = cons_result c (scan_string rest)"
proof -
  consider "c = 0x08" | "c = 0x09" | "c = 0x0A" | "c = 0x0C" | "c = 0x0D" | "c = 0x22" | "c = 0x5C"
    | "c \<notin> {0x08, 0x09, 0x0A, 0x0C, 0x0D, 0x22, 0x5C}"
      "c < 0x20 \<or> is_leading_surrogate c \<or> is_trailing_surrogate c"
    | "c \<notin> {0x08, 0x09, 0x0A, 0x0C, 0x0D, 0x22, 0x5C}"
      "\<not> (c < 0x20 \<or> is_leading_surrogate c \<or> is_trailing_surrogate c)"
    by blast
  then show ?thesis
  proof cases
    case 8
    then show ?thesis by (simp add: quote_unit_def scan_unicode_escape)
  next
    case 9
    then show ?thesis by (simp add: quote_unit_def scan_string_plain)
  qed (simp_all add: quote_unit_def scan_string_simple simple_escape_def)
qed

lemma surrogate_plain:
  assumes "is_leading_surrogate c \<or> is_trailing_surrogate c"
  shows "c \<noteq> 0x22" "c \<noteq> 0x5C" "\<not> c < 0x20"
  using assms
  by (auto simp: is_leading_surrogate_def is_trailing_surrogate_def word_le_nat_alt word_less_nat_alt)

lemma scan_quote_units:
  "scan_string (quote_units s @ 0x22 # rest) = Some (s, rest)"
proof (induction s rule: quote_units.induct)
  case 1
  show ?case by (simp add: scan_string_close)
next
  case (2 c)
  show ?case
    by (simp add: scan_quote_unit scan_string_close cons_result_def)
next
  case (3 c d cs)
  show ?case
  proof (cases "is_leading_surrogate c \<and> is_trailing_surrogate d")
    case True
    then have "scan_string (c # d # quote_units cs @ 0x22 # rest)
      = cons_result c (cons_result d (scan_string (quote_units cs @ 0x22 # rest)))"
      using surrogate_plain [of c] surrogate_plain [of d] by (simp add: scan_string_plain)
    with True 3 show ?thesis by (simp add: cons_result_def)
  next
    case False
    then have q: "quote_units (c # d # cs) = quote_unit c @ quote_units (d # cs)"
      by (simp only: quote_units.simps if_False)
    have "scan_string (quote_units (d # cs) @ 0x22 # rest) = Some (d # cs, rest)"
      using 3(2) False by blast
    then show ?thesis
      unfolding q by (simp add: scan_quote_unit cons_result_def)
  qed
qed

declare tokenize.simps [simp del] want_value.simps [simp del] value_done.simps [simp del]

lemma tokenize_Nil: "tokenize [] = Some []"
  by (simp add: tokenize.simps)

lemma tokenize_ws: "is_json_ws c \<Longrightarrow> tokenize (c # cs) = tokenize cs"
  by (simp add: tokenize.simps)

lemma tokenize_LBracket: "tokenize (0x5B # cs) = cons_token LBracket (tokenize cs)"
  by (simp add: tokenize.simps is_json_ws_def)

lemma tokenize_RBracket: "tokenize (0x5D # cs) = cons_token RBracket (tokenize cs)"
  by (simp add: tokenize.simps is_json_ws_def)

lemma tokenize_Comma: "tokenize (0x2C # cs) = cons_token Comma (tokenize cs)"
  by (simp add: tokenize.simps is_json_ws_def)

lemma tokenize_QuoteJSONString:
  "tokenize (QuoteJSONString s @ rest) = cons_token (TStr s) (tokenize rest)"
  by (simp add: QuoteJSONString_def tokenize.simps is_json_ws_def scan_quote_units)

definition string_tokens :: "jsstring \<Rightarrow> jsstring list \<Rightarrow> token list" where
  "string_tokens x xs = TStr x # concat (map (\<lambda>y. [Comma, TStr y]) xs)"

lemma tokenize_separator: "tokenize (separator @ rest) = cons_token Comma (tokenize rest)"
  by (simp add: separator_def js_def tokenize_Comma tokenize_ws is_json_ws_def)

lemma tokenize_join:
  "tokenize (join separator (QuoteJSONString x # map QuoteJSONString xs) @ rest)
     = map_option (\<lambda>ts. string_tokens x xs @ ts) (tokenize rest)"
proof (induction xs arbitrary: x)
  case Nil
  show ?case
    by (simp add: tokenize_QuoteJSONString cons_token_def string_tokens_def option.map_comp comp_def)
next
  case (Cons y ys)
  have "tokenize (join separator (QuoteJSONString x # map QuoteJSONString (y # ys)) @ rest)
      = cons_token (TStr x) (cons_token Comma
          (tokenize (join separator (QuoteJSONString y # map QuoteJSONString ys) @ rest)))"
    by (simp add: tokenize_QuoteJSONString tokenize_separator)
  then show ?case
    by (simp add: Cons.IH cons_token_def string_tokens_def option.map_comp comp_def)
qed

lemma tokenize_stringify:
  "tokenize (JSON_stringify_strings xs)
     = Some (case xs of [] \<Rightarrow> [LBracket, RBracket]
             | x # xs' \<Rightarrow> LBracket # string_tokens x xs' @ [RBracket])"
proof (cases xs)
  case Nil
  then show ?thesis
    by (simp add: JSON_stringify_strings_def js_def tokenize_LBracket tokenize_RBracket tokenize_Nil
        cons_token_def)
next
  case (Cons x xs')
  have ws: "is_json_ws 0x0A" "is_json_ws 0x20" by (simp_all add: is_json_ws_def)
  have 1: "tokenize (JSON_stringify_strings xs)
     = cons_token LBracket (tokenize (join separator (QuoteJSONString x # map QuoteJSONString xs')
          @ [0x0A, 0x5D]))"
    unfolding JSON_stringify_strings_def Cons
    by (simp add: tokenize_LBracket tokenize_ws ws js_def del: join.simps)
  have 2: "tokenize [0x0A, 0x5D] = Some [RBracket]"
    by (simp add: tokenize_ws ws tokenize_RBracket tokenize_Nil cons_token_def)
  show ?thesis
    unfolding 1 tokenize_join 2 by (simp add: Cons cons_token_def)
qed

lemma want_value_TStr: "want_value st (TStr s # ts) = value_done st (JStr s) ts"
  by (simp add: want_value.simps)

lemma value_done_Comma:
  "value_done (ArrF acc # st) v (Comma # ts) = want_value (ArrF (acc @ [v]) # st) ts"
  by (simp add: value_done.simps)

lemma value_done_RBracket:
  "value_done (ArrF acc # st) v (RBracket # ts) = value_done st (JArr (acc @ [v])) ts"
  by (simp add: value_done.simps)

lemma want_value_strings:
  "want_value (ArrF acc # st) (string_tokens x xs @ RBracket # ts)
     = value_done st (JArr (acc @ map JStr (x # xs))) ts"
proof (induction xs arbitrary: acc x)
  case Nil
  show ?case
    by (simp add: string_tokens_def want_value_TStr value_done_RBracket)
next
  case (Cons y ys)
  have "want_value (ArrF acc # st) (string_tokens x (y # ys) @ RBracket # ts)
      = want_value (ArrF (acc @ [JStr x]) # st) (string_tokens y ys @ RBracket # ts)"
    by (simp add: string_tokens_def want_value_TStr value_done_Comma)
  then show ?case by (simp add: Cons.IH)
qed

lemma JSON_parse_stringify:
  "JSON_parse (JSON_stringify_strings xs) = Inr (JArr (map JStr xs))"
proof (cases xs)
  case Nil
  then show ?thesis
    by (simp add: JSON_parse_def tokenize_stringify want_value.simps value_done.simps)
next
  case (Cons x xs')
  have "want_value [] (LBracket # string_tokens x xs' @ [RBracket])
      = want_value [ArrF []] (string_tokens x xs' @ [RBracket])"
    by (subst want_value.simps) (simp add: string_tokens_def)
  also have "\<dots> = value_done [] (JArr (map JStr (x # xs'))) []"
    using want_value_strings [of "[]" "[]" x xs' "[]"] by simp
  also have "\<dots> = Some (JArr (map JStr (x # xs')))"
    by (simp add: value_done.simps)
  finally show ?thesis
    by (simp add: JSON_parse_def tokenize_stringify Cons)
qed

section \<open>Lists, indices and trimming\<close>

lemma Array_includes_iff: "Array_includes xs x \<longleftrightarrow> x \<in> set xs"
  by (induction xs) auto

lemma indexOf_from_absent: "x \<notin> set xs \<Longrightarrow> indexOf_from i xs x = - 1"
  by (induction xs arbitrary: i) auto

lemma indexOf_from_present:
  "x \<in> set xs \<Longrightarrow> i \<le> indexOf_from i xs x
     \<and> take (nat (indexOf_from i xs x - i)) xs @ drop (nat (indexOf_from i xs x - i) + 1) xs
         = remove1 x xs"
proof (induction xs arbitrary: i)
  case Nil
  then show ?case by simp
next
  case (Cons y ys)
  show ?case
  proof (cases "y = x")
    case True
    then show ?thesis by simp
  next
    case False
    with Cons.prems have "x \<in> set ys" by simp
    from Cons.IH [OF this, of "i + 1"]
    have le: "i + 1 \<le> indexOf_from (i + 1) ys x"
      and eq: "take (nat (indexOf_from (i + 1) ys x - (i + 1))) ys
               @ drop (nat (indexOf_from (i + 1) ys x - (i + 1)) + 1) ys = remove1 x ys"
      by simp_all
    have n: "nat (indexOf_from (i + 1) ys x - i) = Suc (nat (indexOf_from (i + 1) ys x - (i + 1)))"
      using le by simp
    show ?thesis using False le eq by (simp add: n)
  qed
qed

lemma indexOf_absent: "x \<notin> set xs \<Longrightarrow> indexOf xs x = - 1"
  by (simp add: indexOf_def indexOf_from_absent)

lemma indexOf_present: "x \<in> set xs \<Longrightarrow> indexOf xs x > - 1"
  using indexOf_from_present [of x xs 0] by (simp add: indexOf_def)

lemma splice1_indexOf: "x \<in> set xs \<Longrightarrow> splice1 xs (indexOf xs x) = remove1 x xs"
  using indexOf_from_present [of x xs 0] by (simp add: indexOf_def splice1_def)

lemma all_dropWhile_iff: "(\<forall>x\<in>set (dropWhile P xs). P x) \<longleftrightarrow> (\<forall>x\<in>set xs. P x)"
  by (induction xs) auto

lemma trim_empty_iff: "trim s = [] \<longleftrightarrow> (\<forall>c\<in>set s. is_white_space c)"
  by (simp add: trim_def all_dropWhile_iff)

lemma last_dropWhile_nonempty: "dropWhile P xs \<noteq> [] \<Longrightarrow> last (dropWhile P xs) = last xs"
  by (induction xs) (auto split: if_splits)

lemma trim_ends:
  assumes "trim s \<noteq> []"
  shows "\<not> is_white_space (hd (trim s))" "\<not> is_white_space (last (trim s))"
proof -
  define ys where "ys = dropWhile is_white_space s"
  define zs where "zs = dropWhile is_white_space (rev ys)"
  have t: "trim s = rev zs" by (simp add: trim_def ys_def zs_def)
  with assms have zs: "zs \<noteq> []" by simp
  then have ys: "ys \<noteq> []" by (auto simp: zs_def)
  have "hd zs = hd (dropWhile is_white_space (rev ys))" by (simp add: zs_def)
  then have "\<not> is_white_space (hd zs)" using zs hd_dropWhile [of is_white_space "rev ys"]
    by (simp add: zs_def)
  then show "\<not> is_white_space (last (trim s))" using zs by (simp add: t last_rev)
  have "last zs = last (rev ys)"
    unfolding zs_def using zs by (intro last_dropWhile_nonempty) (simp add: zs_def)
  then have "last zs = hd ys" using ys by (simp add: last_rev)
  moreover have "\<not> is_white_space (hd ys)"
    unfolding ys_def using ys hd_dropWhile [of is_white_space s] by (simp add: ys_def)
  ultimately show "\<not> is_white_space (hd (trim s))" using zs by (simp add: t hd_rev)
qed

section \<open>The aggregation computes what the specification words\<close>

lemma spec_first_seen_snoc:
  "spec_first_seen (ks @ [k]) = (if k \<in> set ks then spec_first_seen ks else spec_first_seen ks @ [k])"
  by (simp add: spec_first_seen_def)

lemma set_spec_first_seen [simp]: "set (spec_first_seen ks) = set ks"
  by (simp add: spec_first_seen_def)

lemma distinct_spec_first_seen [simp]: "distinct (spec_first_seen ks)"
  by (simp add: spec_first_seen_def)

lemma map_of_keyed:
  "map_of (map (\<lambda>k. (k, f k)) ks) k = (if k \<in> set ks then Some (f k) else None)"
  by (induction ks) auto

lemma spec_day_other:
  "dateKey_of rt item \<noteq> k \<Longrightarrow> spec_day rt (pre @ [item]) k = spec_day rt pre k"
  by (simp add: spec_day_def)

lemma spec_day_same:
  assumes "k \<in> set (map (dateKey_of rt) pre)" "dateKey_of rt item = k"
  shows "spec_day rt (pre @ [item]) k
    = (spec_day rt pre k)\<lparr>temps := temps (spec_day rt pre k) @ [temp (main item)]\<rparr>"
proof -
  from assms(1) have "filter (\<lambda>item. dateKey_of rt item = k) pre \<noteq> []"
    by (auto simp: filter_empty_conv)
  then show ?thesis using assms(2)
    by (simp add: spec_day_def Let_def)
qed

lemma spec_day_new:
  assumes "k \<notin> set (map (dateKey_of rt) pre)" "dateKey_of rt item = k" "weather item = c # cs"
  shows "spec_day rt (pre @ [item]) k
    = \<lparr> date = k, temps = [temp (main item)], day_weather = description c,
        day_humidity = humidity (main item), windSpeed = speed (wind item) \<rparr>"
proof -
  from assms(1) have "filter (\<lambda>item. dateKey_of rt item = k) pre = []"
    by (auto simp: filter_empty_conv)
  then show ?thesis using assms(2,3)
    by (simp add: spec_day_def Let_def)
qed

lemma add_item_spec:
  assumes "weather item \<noteq> []" "dateKey_of rt item \<notin> set Object_prototype_names"
  shows "add_item rt item (spec_object rt pre) = Inr (spec_object rt (pre @ [item]))"
proof (cases "dateKey_of rt item \<in> set (map (dateKey_of rt) pre)")
  case True
  define k where "k = dateKey_of rt item"
  have own: "get_property (spec_object rt pre) k = Own (spec_day rt pre k)"
    using True by (simp add: get_property_def spec_object_def map_of_keyed k_def)
  have "push_temp k (temp (main item)) (spec_object rt pre) = spec_object rt (pre @ [item])"
    using True
    by (auto simp: push_temp_def spec_object_def spec_first_seen_snoc k_def
        spec_day_same spec_day_other)
  with own show ?thesis
    by (simp add: add_item_def k_def [symmetric] dateKey_of_def [symmetric])
next
  case False
  define k where "k = dateKey_of rt item"
  from assms(1) obtain c cs where w: "weather item = c # cs" by (cases "weather item") auto
  have missing: "get_property (spec_object rt pre) k = Missing"
    using False assms(2) by (simp add: get_property_def spec_object_def map_of_keyed k_def)
  have keep: "push_temp k t (spec_object rt pre) = spec_object rt pre" for t
    using False by (auto simp: push_temp_def spec_object_def k_def image_iff)
  have others: "map (\<lambda>k'. (k', spec_day rt (pre @ [item]) k')) (spec_first_seen (map (dateKey_of rt) pre))
      = spec_object rt pre"
  proof -
    have "spec_day rt (pre @ [item]) k' = spec_day rt pre k'"
      if "k' \<in> set (map (dateKey_of rt) pre)" for k'
      using that False by (intro spec_day_other) auto
    then show ?thesis by (simp add: spec_object_def)
  qed
  have "push_temp k (temp (main item))
          (spec_object rt pre @
             [(k, \<lparr> date = k, temps = [], day_weather = description c,
                    day_humidity = humidity (main item), windSpeed = speed (wind item) \<rparr>)])
        = spec_object rt (pre @ [item])"
    using False w keep others
    by (simp add: spec_object_def [of rt "pre @ [item]"] spec_first_seen_snoc k_def [symmetric]
        spec_day_new [OF _ k_def [symmetric] w])
       (simp add: push_temp_def)
  with missing w show ?thesis
    by (simp add: add_item_def k_def [symmetric] dateKey_of_def [symmetric])
qed

lemma group_items_spec:
  assumes "\<forall>item\<in>set items. weather item \<noteq> [] \<and> dateKey_of rt item \<notin> set Object_prototype_names"
  shows "group_items rt items (spec_object rt pre) = Inr (spec_object rt (pre @ items))"
  using assms
proof (induction items arbitrary: pre)
  case Nil
  show ?case by simp
next
  case (Cons item items)
  then have "add_item rt item (spec_object rt pre) = Inr (spec_object rt (pre @ [item]))"
    by (intro add_item_spec) auto
  moreover have "group_items rt items (spec_object rt (pre @ [item]))
      = Inr (spec_object rt ((pre @ [item]) @ items))"
    using Cons.prems by (intro Cons.IH) auto
  ultimately show ?case by simp
qed

lemma Object_values_plain:
  "\<forall>k\<in>set (map fst obj). \<not> is_array_index k \<Longrightarrow> Object_values obj = map snd obj"
proof -
  assume a: "\<forall>k\<in>set (map fst obj). \<not> is_array_index k"
  then have 1: "filter (\<lambda>(k, v). is_array_index k) obj = []"
    by (auto simp: filter_empty_conv)
  from a have 2: "filter (\<lambda>(k, v). \<not> is_array_index k) obj = obj"
    by (auto simp: filter_id_conv)
  show ?thesis by (simp add: Object_values_def 1 2)
qed

lemma forecast_days_spec:
  assumes "\<forall>item\<in>set items. weather item \<noteq> [] \<and> plain_key (dateKey_of rt item)"
  shows "forecast_days rt items
    = Inr (take 5 (map (spec_day rt items) (spec_first_seen (map (dateKey_of rt) items))))"
proof -
  have "group_items rt items (spec_object rt []) = Inr (spec_object rt ([] @ items))"
    using assms by (intro group_items_spec) (auto simp: plain_key_def)
  then have g: "group_items rt items [] = Inr (spec_object rt items)"
    by (simp add: spec_object_def spec_first_seen_def)
  have "Object_values (spec_object rt items) = map snd (spec_object rt items)"
    using assms by (intro Object_values_plain) (auto simp: spec_object_def plain_key_def)
  then show ?thesis
    by (simp add: forecast_days_def g) (simp add: spec_object_def comp_def)
qed

section \<open>Console lines, extrema and decimal digits\<close>

lemma console_fold_log: "console (fold console_log ls w) = console w @ ls"
  by (induction ls arbitrary: w) (simp_all add: console_log_def)

lemma files_fold_log: "files (fold console_log ls w) = files w"
  by (induction ls arbitrary: w) (simp_all add: console_log_def)

lemma console_fold_days:
  "console (fold (\<lambda>forecast. fold console_log (day_lines rt forecast)) days w)
     = console w @ concat (map (day_lines rt) days)"
  by (induction days arbitrary: w) (simp_all add: console_fold_log)

lemma files_fold_days:
  "files (fold (\<lambda>forecast. fold console_log (day_lines rt forecast)) days w) = files w"
  by (induction days arbitrary: w) (simp_all add: files_fold_log)

lemma world_eqI: "files w = files w' \<Longrightarrow> console w = console w' \<Longrightarrow> (w :: world) = w'"
  by simp

lemma displayForecast_days:
  assumes "forecast_days rt items = Inr days"
  shows "displayForecast rt items w
    = (Inr (), w\<lparr>console := console w @ [hdr_forecast, rule_line]
                     @ concat (map (day_lines rt) days) @ [rule_line @ [0x0A]]\<rparr>)"
  using assms
  by (simp add: displayForecast_def Let_def)
     (rule world_eqI; simp add: console_log_def console_fold_days files_fold_days)

lemma foldl_min_Min: "foldl min y ys = Min (insert y (set ys))"
  for y :: "'a::linorder"
proof (induction ys arbitrary: y)
  case Nil
  show ?case by simp
next
  case (Cons z zs)
  have "Min (insert (min y z) (set zs)) = Min (insert y (insert z (set zs)))"
    by (cases "set zs = {}") (simp_all add: min.assoc)
  then show ?case by (simp add: Cons.IH)
qed

lemma foldl_max_Max: "foldl max y ys = Max (insert y (set ys))"
  for y :: "'a::linorder"
proof (induction ys arbitrary: y)
  case Nil
  show ?case by simp
next
  case (Cons z zs)
  have "Max (insert (max y z) (set zs)) = Max (insert y (insert z (set zs)))"
    by (cases "set zs = {}") (simp_all add: max.assoc)
  then show ?case by (simp add: Cons.IH)
qed

lemma Math_min_nonempty: "xs \<noteq> [] \<Longrightarrow> Math_min xs = Finite (Min (set xs))"
  by (cases xs) (simp_all add: Math_min_def foldl_min_Min)

lemma Math_max_nonempty: "xs \<noteq> [] \<Longrightarrow> Math_max xs = Finite (Max (set xs))"
  by (cases xs) (simp_all add: Math_max_def foldl_max_Max)

lemma temperature_line_nonempty:
  "temps d \<noteq> [] \<Longrightarrow>
   temperature_line rt d = lbl_day_temp @ toFixed1 rt (Min (set (temps d))) @ lbl_range_sep
      @ toFixed1 rt (Max (set (temps d))) @ lbl_celsius"
  by (simp add: temperature_line_def Math_min_nonempty Math_max_nonempty extended_toFixed1_def)

subsection \<open>Decimal digits\<close>

lemma digit_unit:
  assumes "d < 10"
  shows "is_digit (of_nat (48 + d))" "unat (of_nat (48 + d) :: 16 word) = 48 + d"
    "(of_nat (48 + d) :: 16 word) \<noteq> 0x2D"
proof -
  define c :: "16 word" where "c = of_nat (48 + d)"
  have u: "unat c = 48 + d"
    unfolding c_def using assms by (intro unat_of_nat_16) simp
  then show "unat (of_nat (48 + d) :: 16 word) = 48 + d" unfolding c_def .
  have "is_digit c" using u assms by (simp add: is_digit_def word_le_nat_alt)
  then show "is_digit (of_nat (48 + d))" unfolding c_def .
  have "c \<noteq> 0x2D" using u by auto
  then show "(of_nat (48 + d) :: 16 word) \<noteq> 0x2D" unfolding c_def .
qed

lemma digits_value_snoc: "digits_value (ds @ [c]) = 10 * digits_value ds + (unat c - 48)"
  by (simp add: digits_value_def)

lemma decimal_small: "n < 10 \<Longrightarrow> decimal n = [of_nat (48 + n)]"
  by (subst decimal.simps) simp

lemma decimal_large: "\<not> n < 10 \<Longrightarrow> decimal n = decimal (n div 10) @ [of_nat (48 + n mod 10)]"
  by (subst decimal.simps) simp

lemma decimal_props:
  "decimal n \<noteq> [] \<and> (\<forall>c\<in>set (decimal n). is_digit c) \<and> digits_value (decimal n) = n"
proof (induction n rule: decimal.induct)
  case (1 n)
  show ?case
  proof (cases "n < 10")
    case True
    then show ?thesis
      using digit_unit [of n] by (simp only: decimal_small) (simp add: digits_value_def)
  next
    case False
    have m: "n mod 10 < 10" by simp
    from False 1 have ih: "decimal (n div 10) \<noteq> []" "\<forall>c\<in>set (decimal (n div 10)). is_digit c"
      "digits_value (decimal (n div 10)) = n div 10" by simp_all
    show ?thesis
      using ih digit_unit [OF m]
      by (simp only: decimal_large [OF False] digits_value_snoc) auto
  qed
qed

lemma read_unsigned1_decimal:
  assumes "d < 10"
  shows "spec_read_unsigned1 (decimal m @ js ''.'' @ decimal d) = Some (of_nat m + of_nat d / 10)"
proof -
  have "rev (decimal m @ js ''.'' @ decimal d) = of_nat (48 + d) # 0x2E # rev (decimal m)"
    using assms by (simp add: decimal_small js_def)
  then show ?thesis
    using decimal_props [of m] digit_unit [OF assms]
    by (simp add: spec_read_unsigned1_def digits_value_def)
qed

lemma hd_decimal_not_minus: "hd (decimal m) \<noteq> 0x2D"
proof -
  have "hd (decimal m) \<in> set (decimal m)" using decimal_props [of m] by simp
  then have "is_digit (hd (decimal m))" using decimal_props [of m] by blast
  then show ?thesis by (auto simp: is_digit_def)
qed

lemma toFixed1_reads_back:
  assumes "\<bar>x\<bar> < 10 ^ 21"
  shows "\<exists>r. spec_read_fixed1 (toFixed1 rt x) = Some r \<and> \<bar>r - x\<bar> \<le> 1 / 20"
proof -
  define n where "n = nat \<lfloor>\<bar>x\<bar> * 10 + 1 / 2\<rfloor>"
  define body where "body = decimal (n div 10) @ js ''.'' @ decimal (n mod 10)"
  have fl: "0 \<le> \<lfloor>\<bar>x\<bar> * 10 + 1 / 2\<rfloor>" by simp
  have le: "of_nat n \<le> \<bar>x\<bar> * 10 + 1 / 2"
    unfolding n_def using fl of_int_floor_le [of "\<bar>x\<bar> * 10 + 1 / 2"] by simp
  have gt: "\<bar>x\<bar> * 10 + 1 / 2 < of_nat n + 1"
    unfolding n_def using fl floor_correct [of "\<bar>x\<bar> * 10 + 1 / 2"] by simp
  have split: "(of_nat (n div 10) :: rat) + of_nat (n mod 10) / 10 = of_nat n / 10"
  proof -
    have "(of_nat n :: rat) = of_nat (n div 10 * 10 + n mod 10)" by simp
    also have "\<dots> = of_nat (n div 10) * 10 + of_nat (n mod 10)" by (simp only: of_nat_add of_nat_mult of_nat_numeral)
    finally show ?thesis by simp
  qed
  have rd: "spec_read_unsigned1 body = Some (of_nat n / 10)"
    unfolding body_def using read_unsigned1_decimal [of "n mod 10" "n div 10"] split by simp
  have close: "\<bar>of_nat n / 10 - \<bar>x\<bar>\<bar> \<le> 1 / 20"
  proof -
    have "of_nat n / 10 - \<bar>x\<bar> \<le> 1 / 20" using le by (simp add: field_simps)
    moreover have "- (1 / 20) \<le> of_nat n / 10 - \<bar>x\<bar>" using gt by (simp add: field_simps)
    ultimately show ?thesis unfolding abs_le_iff by auto
  qed
  have bne: "body \<noteq> []" "hd body \<noteq> 0x2D"
    using decimal_props [of "n div 10"] hd_decimal_not_minus [of "n div 10"]
    by (simp_all add: body_def)
  show ?thesis
  proof (cases "x < 0")
    case True
    then have "toFixed1 rt x = 0x2D # body"
      using assms by (simp add: toFixed1_def Let_def n_def body_def js_def)
    then have "spec_read_fixed1 (toFixed1 rt x) = Some (- (of_nat n / 10))"
      using rd by (simp add: spec_read_fixed1_def)
    moreover have "\<bar>- (of_nat n / 10) - x\<bar> \<le> 1 / 20"
    proof -
      have "- (of_nat n / 10) - x = - (of_nat n / 10 - \<bar>x\<bar>)" using True by simp
      then show ?thesis using close by (simp only: abs_minus_cancel)
    qed
    ultimately show ?thesis by blast
  next
    case False
    then have "toFixed1 rt x = body"
      using assms by (simp add: toFixed1_def Let_def n_def body_def)
    then have "spec_read_fixed1 (toFixed1 rt x) = Some (of_nat n / 10)"
      using rd bne by (cases body) (simp_all add: spec_read_fixed1_def)
    moreover have "\<bar>of_nat n / 10 - x\<bar> \<le> 1 / 20"
    proof -
      have "\<bar>x\<bar> = x" using False by simp
      then show ?thesis using close by (simp only:)
    qed
    ultimately show ?thesis by blast
  qed
qed

section \<open>Properties of the weather client\<close>

lemma client_errors_distinct:
  "CityNotFound \<noteq> InvalidCredential" "CityNotFound \<noteq> FetchFailed"
  "InvalidCredential \<noteq> FetchFailed"
  by (simp_all add: CityNotFound_def InvalidCredential_def FetchFailed_def
        msg_city_not_found_def msg_invalid_api_key_def msg_weather_failed_def js_def)

text \<open>
  C5. Fetching the current weather for any city: a resolved request returns the response
  body; a rejected one fails with CityNotFound exactly when the rejection carries a
  response of status 404, with InvalidCredential exactly when it carries status 401, and
  with FetchFailed in every other case (no response at all, or any other status).
\<close>

theorem getCurrentWeather_outcomes:
  fixes axios_get :: "request \<Rightarrow> 'd axios_outcome"
  assumes "axios_get (weather_request app ''/weather'' city) = out"
  shows "(getCurrentWeather axios_get app city = Inl CityNotFound
            \<longleftrightarrow> (\<exists>resp. out = Rejected (Some resp) \<and> status resp = 404))
       \<and> (getCurrentWeather axios_get app city = Inl InvalidCredential
            \<longleftrightarrow> (\<exists>resp. out = Rejected (Some resp) \<and> status resp = 401))
       \<and> (getCurrentWeather axios_get app city = Inl FetchFailed
            \<longleftrightarrow> out = Rejected None
              \<or> (\<exists>resp. out = Rejected (Some resp) \<and> status resp \<noteq> 404 \<and> status resp \<noteq> 401))
       \<and> (\<forall>body. getCurrentWeather axios_get app city = Inr body
            \<longleftrightarrow> (\<exists>resp. out = Resolved resp \<and> data resp = body))"
  using client_errors_distinct assms
  unfolding getCurrentWeather_def response_status_is_def
  by (auto split: axios_outcome.splits option.splits)

theorem getCurrentWeather_outcomes_witness:
  "getCurrentWeather (\<lambda>_. Rejected (Some \<lparr>status = 404, data = JNull\<rparr>)) example_app (js ''Atlantis'')
     = Inl CityNotFound
   \<and> getCurrentWeather (\<lambda>_. Rejected (Some \<lparr>status = 401, data = JNull\<rparr>)) example_app (js ''Tokyo'')
     = Inl InvalidCredential
   \<and> getCurrentWeather (\<lambda>_. Rejected (Some \<lparr>status = 500, data = JNull\<rparr>)) example_app (js ''Tokyo'')
     = Inl FetchFailed
   \<and> getCurrentWeather (\<lambda>_. Rejected None) example_app (js ''Tokyo'') = (Inl FetchFailed :: js_error + json)
   \<and> getCurrentWeather (\<lambda>_. Resolved \<lparr>status = 200, data = JBool True\<rparr>) example_app (js ''Tokyo'')
     = Inr (JBool True)"
proof -
  have a: "getCurrentWeather (\<lambda>_. Rejected (Some \<lparr>status = 404, data = JNull\<rparr>)) example_app (js ''Atlantis'')
     = Inl CityNotFound"
    using getCurrentWeather_outcomes [of "\<lambda>_. Rejected (Some \<lparr>status = 404, data = JNull\<rparr>)" example_app "js ''Atlantis''", OF refl]
    by simp
  have b: "getCurrentWeather (\<lambda>_. Rejected (Some \<lparr>status = 401, data = JNull\<rparr>)) example_app (js ''Tokyo'')
     = Inl InvalidCredential"
    using getCurrentWeather_outcomes [of "\<lambda>_. Rejected (Some \<lparr>status = 401, data = JNull\<rparr>)" example_app "js ''Tokyo''", OF refl]
    by simp
  have c: "getCurrentWeather (\<lambda>_. Rejected (Some \<lparr>status = 500, data = JNull\<rparr>)) example_app (js ''Tokyo'')
     = Inl FetchFailed"
    using getCurrentWeather_outcomes [of "\<lambda>_. Rejected (Some \<lparr>status = 500, data = JNull\<rparr>)" example_app "js ''Tokyo''", OF refl]
    by simp
  have d: "getCurrentWeather (\<lambda>_. Rejected None :: json axios_outcome) example_app (js ''Tokyo'') = Inl FetchFailed"
    using getCurrentWeather_outcomes [of "\<lambda>_. Rejected None :: json axios_outcome" example_app "js ''Tokyo''", OF refl]
    by simp
  have e: "getCurrentWeather (\<lambda>_. Resolved \<lparr>status = 200, data = JBool True\<rparr>) example_app (js ''Tokyo'')
     = Inr (JBool True)"
    using getCurrentWeather_outcomes [of "\<lambda>_. Resolved \<lparr>status = 200, data = JBool True\<rparr>" example_app "js ''Tokyo''", OF refl]
    by simp
  from a b c d e show ?thesis by simp
qed

text \<open>
  C6. Fetching the forecast: every rejection, whatever response or status it carries
  (404 and 401 included), fails with the one and the same error, which is neither of the
  two that the current-weather fetch keeps for a status; a resolved request returns the
  response body.
\<close>

theorem getForecast_outcomes:
  fixes axios_get :: "request \<Rightarrow> 'd axios_outcome"
  shows "(\<forall>r. axios_get (weather_request app ''/forecast'' city) = Rejected r
            \<longrightarrow> getForecast axios_get app city = Inl ForecastFetchFailed)
       \<and> (\<forall>resp. axios_get (weather_request app ''/forecast'' city) = Resolved resp
            \<longrightarrow> getForecast axios_get app city = Inr (data resp))
       \<and> ForecastFetchFailed \<noteq> CityNotFound \<and> ForecastFetchFailed \<noteq> InvalidCredential"
  unfolding getForecast_def
  by (simp add: ForecastFetchFailed_def CityNotFound_def InvalidCredential_def
      msg_forecast_failed_def msg_city_not_found_def msg_invalid_api_key_def js_def)

theorem getForecast_outcomes_witness:
  "getForecast (\<lambda>_. Rejected (Some \<lparr>status = 404, data = JNull\<rparr>)) example_app (js ''Atlantis'')
     = Inl ForecastFetchFailed
   \<and> getForecast (\<lambda>_. Rejected (Some \<lparr>status = 401, data = JNull\<rparr>)) example_app (js ''Tokyo'')
     = Inl ForecastFetchFailed
   \<and> getForecast (\<lambda>_. Rejected None) example_app (js ''Tokyo'')
     = (Inl ForecastFetchFailed :: js_error + json)
   \<and> getForecast (\<lambda>_. Resolved \<lparr>status = 200, data = JBool True\<rparr>) example_app (js ''Tokyo'')
     = Inr (JBool True)"
  using
    getForecast_outcomes [of "\<lambda>_. Rejected (Some \<lparr>status = 404, data = JNull\<rparr>)" example_app "js ''Atlantis''"]
    getForecast_outcomes [of "\<lambda>_. Rejected (Some \<lparr>status = 401, data = JNull\<rparr>)" example_app "js ''Tokyo''"]
    getForecast_outcomes [of "\<lambda>_. Rejected None :: json axios_outcome" example_app "js ''Tokyo''"]
    getForecast_outcomes [of "\<lambda>_. Resolved \<lparr>status = 200, data = JBool True\<rparr>" example_app "js ''Tokyo''"]
  by simp

section \<open>Properties of the stores and the menu handler\<close>

lemma count_list_distinct: "distinct xs \<Longrightarrow> count_list xs x = (if x \<in> set xs then 1 else 0)"
  by (induction xs) auto

lemma app_of_addFavoriteCity:
  "favoriteCities (app_of (addFavoriteCity city app w))
     = (if city \<in> set (favoriteCities app) then favoriteCities app else favoriteCities app @ [city])"
  by (simp add: addFavoriteCity_def app_of_def Array_includes_iff Let_def split: sum.splits)

lemma app_of_removeFavoriteCity:
  "favoriteCities (app_of (removeFavoriteCity city app w)) = remove1 city (favoriteCities app)"
proof (cases "city \<in> set (favoriteCities app)")
  case True
  then show ?thesis
    by (simp add: removeFavoriteCity_def app_of_def Let_def indexOf_present splice1_indexOf
        split: sum.splits)
next
  case False
  then show ?thesis
    by (simp add: removeFavoriteCity_def app_of_def Let_def indexOf_absent remove1_idem)
qed

text \<open>
  C3. On a duplicate-free favourites list, add and remove leave a duplicate-free list. Add
  decides by exact equality of strings: a city that is absent is appended at the end, the
  elements before it unchanged; a city that is present leaves the list as it is; either
  way the city then occurs exactly once, also after adding it a second time.
\<close>

theorem favorites_stay_duplicate_free:
  assumes "distinct (favoriteCities app)"
  shows "distinct (favoriteCities (app_of (addFavoriteCity city app w)))
       \<and> distinct (favoriteCities (app_of (removeFavoriteCity city app w)))
       \<and> (city \<notin> set (favoriteCities app) \<longrightarrow>
            favoriteCities (app_of (addFavoriteCity city app w)) = favoriteCities app @ [city])
       \<and> (city \<in> set (favoriteCities app) \<longrightarrow>
            favoriteCities (app_of (addFavoriteCity city app w)) = favoriteCities app)
       \<and> count_list (favoriteCities (app_of (addFavoriteCity city app w))) city = 1
       \<and> count_list (favoriteCities (app_of
            (addFavoriteCity city (app_of (addFavoriteCity city app w))
               (world_of (addFavoriteCity city app w))))) city = 1"
  using assms
  by (simp add: app_of_addFavoriteCity app_of_removeFavoriteCity count_list_distinct)

theorem favorites_stay_duplicate_free_witness:
  "distinct (favoriteCities example_app)
   \<and> favoriteCities (app_of (addFavoriteCity (js ''tokyo'') example_app empty_world))
       = [js ''Tokyo'', js ''London'', js ''tokyo'']
   \<and> favoriteCities (app_of (addFavoriteCity (js ''Tokyo '') example_app empty_world))
       = [js ''Tokyo'', js ''London'', js ''Tokyo '']
   \<and> favoriteCities (app_of (addFavoriteCity (js ''Tokyo'') example_app empty_world))
       = [js ''Tokyo'', js ''London'']
   \<and> count_list (favoriteCities (app_of (addFavoriteCity (js ''Tokyo'') example_app empty_world)))
        (js ''Tokyo'') = 1"
proof -
  have d: "distinct (favoriteCities example_app)"
    by (simp add: example_app_def js_def)
  show ?thesis
    using d
      favorites_stay_duplicate_free [OF d, of "js ''tokyo''" empty_world]
      favorites_stay_duplicate_free [OF d, of "js ''Tokyo ''" empty_world]
      favorites_stay_duplicate_free [OF d, of "js ''Tokyo''" empty_world]
    by (simp add: example_app_def js_def)
qed

lemma files_console_log [simp]: "files (console_log line w) = files w"
  by (simp add: console_log_def)

lemma msg_outcomes_differ: "msg_not_found city \<noteq> msg_removed city"
  by (simp add: msg_not_found_def msg_removed_def added_pre_def)

text \<open>
  C4. Removing a city that is not in the list (by exact equality) only logs the not-found
  message: the list is the same, no file is written, nothing is thrown. Removing a city
  that is in the list deletes its first occurrence and saves the new list: where the
  write succeeds the favourites file holds the new list and the removed message is logged,
  and where it fails the error of the write is thrown.
\<close>

theorem removeFavoriteCity_outcomes:
  "(city \<notin> set (favoriteCities app) \<longrightarrow>
      removeFavoriteCity city app w = (Inr (), app, console_log (msg_not_found city) w)
      \<and> files (world_of (removeFavoriteCity city app w)) = files w)
   \<and> (city \<in> set (favoriteCities app) \<longrightarrow>
      favoriteCities (app_of (removeFavoriteCity city app w)) = remove1 city (favoriteCities app)
      \<and> (\<forall>w'. saveFavoriteCities (app\<lparr>favoriteCities := remove1 city (favoriteCities app)\<rparr>) w = Inr w' \<longrightarrow>
            removeFavoriteCity city app w
              = (Inr (), app\<lparr>favoriteCities := remove1 city (favoriteCities app)\<rparr>,
                 console_log (msg_removed city) w')
            \<and> files (world_of (removeFavoriteCity city app w)) favoritesFile
              = Some (RegularFile (JSON_stringify_strings (remove1 city (favoriteCities app)))))
      \<and> (\<forall>e. saveFavoriteCities (app\<lparr>favoriteCities := remove1 city (favoriteCities app)\<rparr>) w = Inl e \<longrightarrow>
            removeFavoriteCity city app w
              = (Inl e, app\<lparr>favoriteCities := remove1 city (favoriteCities app)\<rparr>, w)))
   \<and> msg_not_found city \<noteq> msg_removed city"
proof -
  have absent: "removeFavoriteCity city app w = (Inr (), app, console_log (msg_not_found city) w)"
    if "city \<notin> set (favoriteCities app)"
    using that by (simp add: removeFavoriteCity_def Let_def indexOf_absent)
  have present: "removeFavoriteCity city app w =
      (case saveFavoriteCities (app\<lparr>favoriteCities := remove1 city (favoriteCities app)\<rparr>) w of
         Inl e \<Rightarrow> (Inl e, app\<lparr>favoriteCities := remove1 city (favoriteCities app)\<rparr>, w)
       | Inr w' \<Rightarrow> (Inr (), app\<lparr>favoriteCities := remove1 city (favoriteCities app)\<rparr>,
                    console_log (msg_removed city) w'))"
    if "city \<in> set (favoriteCities app)"
    using that by (simp add: removeFavoriteCity_def Let_def indexOf_present splice1_indexOf)
  have written: "files w' favoritesFile = Some (RegularFile (JSON_stringify_strings (favoriteCities a)))"
    if "saveFavoriteCities a w = Inr w'" for a w'
    using that by (auto simp: saveFavoriteCities_def fs_writeFileSync_def
        split: option.splits fnode.splits)
  let ?app' = "app\<lparr>favoriteCities := remove1 city (favoriteCities app)\<rparr>"
  have a: "city \<notin> set (favoriteCities app) \<longrightarrow>
      removeFavoriteCity city app w = (Inr (), app, console_log (msg_not_found city) w)
      \<and> files (world_of (removeFavoriteCity city app w)) = files w"
    using absent by (simp add: world_of_def)
  have b: "\<forall>w'. saveFavoriteCities ?app' w = Inr w' \<longrightarrow>
      removeFavoriteCity city app w = (Inr (), ?app', console_log (msg_removed city) w')
      \<and> files (world_of (removeFavoriteCity city app w)) favoritesFile
          = Some (RegularFile (JSON_stringify_strings (remove1 city (favoriteCities app))))"
    if "city \<in> set (favoriteCities app)"
    using present [OF that] written [of ?app'] by (simp add: world_of_def)
  have c: "\<forall>e. saveFavoriteCities ?app' w = Inl e \<longrightarrow>
      removeFavoriteCity city app w = (Inl e, ?app', w)"
    if "city \<in> set (favoriteCities app)"
    using present [OF that] by simp
  from a b c show ?thesis
    using app_of_removeFavoriteCity [of city app w] msg_outcomes_differ [of city] by blast
qed

theorem removeFavoriteCity_outcomes_witness:
  "removeFavoriteCity (js ''Paris'') example_app empty_world
     = (Inr (), example_app, console_log (msg_not_found (js ''Paris'')) empty_world)
   \<and> favoriteCities (app_of (removeFavoriteCity (js ''Tokyo'') example_app empty_world))
     = [js ''London'']
   \<and> files (world_of (removeFavoriteCity (js ''Tokyo'') example_app empty_world)) favoritesFile
     = Some (RegularFile (JSON_stringify_strings [js ''London'']))"
proof -
  have 1: "js ''Paris'' \<notin> set (favoriteCities example_app)"
    by (simp add: example_app_def js_def)
  have 2: "js ''Tokyo'' \<in> set (favoriteCities example_app)"
    by (simp add: example_app_def js_def)
  have 3: "remove1 (js ''Tokyo'') (favoriteCities example_app) = [js ''London'']"
    by (simp add: example_app_def js_def)
  have 4: "saveFavoriteCities (example_app\<lparr>favoriteCities := [js ''London'']\<rparr>) empty_world
      = Inr (empty_world\<lparr>files := (files empty_world)(favoritesFile \<mapsto>
               RegularFile (JSON_stringify_strings [js ''London'']))\<rparr>)"
    by (simp add: saveFavoriteCities_def fs_writeFileSync_def empty_world_def)
  from removeFavoriteCity_outcomes [of "js ''Paris''" example_app empty_world] 1
  have p: "removeFavoriteCity (js ''Paris'') example_app empty_world
     = (Inr (), example_app, console_log (msg_not_found (js ''Paris'')) empty_world)"
    by blast
  from removeFavoriteCity_outcomes [of "js ''Tokyo''" example_app empty_world] 2
  have t: "favoriteCities (app_of (removeFavoriteCity (js ''Tokyo'') example_app empty_world))
      = remove1 (js ''Tokyo'') (favoriteCities example_app)"
    and "\<forall>w'. saveFavoriteCities (example_app\<lparr>favoriteCities :=
            remove1 (js ''Tokyo'') (favoriteCities example_app)\<rparr>) empty_world = Inr w' \<longrightarrow>
          files (world_of (removeFavoriteCity (js ''Tokyo'') example_app empty_world)) favoritesFile
            = Some (RegularFile (JSON_stringify_strings
                (remove1 (js ''Tokyo'') (favoriteCities example_app))))"
    by blast+
  then have f: "files (world_of (removeFavoriteCity (js ''Tokyo'') example_app empty_world)) favoritesFile
     = Some (RegularFile (JSON_stringify_strings [js ''London'']))"
    unfolding 3 using 4 by blast
  from p t f show ?thesis unfolding 3 by simp
qed

text \<open>
  C10. The add-favourite command on any input line: when the line is empty or all white
  space nothing changes, no add is attempted; otherwise add is called with the trimmed
  line. So a city that the command puts into the list is the trimmed line, is not empty,
  and neither starts nor ends with white space.
\<close>

theorem handleAddFavorite_trims:
  "((\<forall>c\<in>set input. is_white_space c) \<longrightarrow> handleAddFavorite input app w = (Inr (), app, w))
   \<and> (\<not> (\<forall>c\<in>set input. is_white_space c) \<longrightarrow>
        handleAddFavorite input app w = addFavoriteCity (trim input) app w)
   \<and> (\<forall>city\<in>set (favoriteCities (app_of (handleAddFavorite input app w))).
        city \<in> set (favoriteCities app)
        \<or> (city = trim input \<and> city \<noteq> [] \<and> \<not> is_white_space (hd city)
            \<and> \<not> is_white_space (last city)))"
proof -
  have blank: "handleAddFavorite input app w = (Inr (), app, w)"
    if "\<forall>c\<in>set input. is_white_space c"
    using that by (simp add: handleAddFavorite_def trim_empty_iff)
  have other: "handleAddFavorite input app w = addFavoriteCity (trim input) app w"
    if "\<not> (\<forall>c\<in>set input. is_white_space c)"
    using that by (simp add: handleAddFavorite_def trim_empty_iff)
  have entered: "city \<in> set (favoriteCities app)
        \<or> (city = trim input \<and> city \<noteq> [] \<and> \<not> is_white_space (hd city)
            \<and> \<not> is_white_space (last city))"
    if c: "city \<in> set (favoriteCities (app_of (handleAddFavorite input app w)))" for city
  proof (cases "\<forall>c\<in>set input. is_white_space c")
    case True
    with c blank show ?thesis by (simp add: app_of_def)
  next
    case False
    then have ne: "trim input \<noteq> []" by (simp add: trim_empty_iff)
    from c other [OF False]
    have "city \<in> set (favoriteCities app) \<or> city = trim input"
      by (auto simp: app_of_addFavoriteCity split: if_splits)
    with trim_ends [OF ne] ne show ?thesis by auto
  qed
  from blank other entered show ?thesis by blast
qed

theorem handleAddFavorite_trims_witness:
  "handleAddFavorite (js ''   '') example_app empty_world = (Inr (), example_app, empty_world)
   \<and> handleAddFavorite (js ''  Osaka '') example_app empty_world
       = addFavoriteCity (js ''Osaka'') example_app empty_world
   \<and> favoriteCities (app_of (handleAddFavorite (js ''  Osaka '') example_app empty_world))
       = [js ''Tokyo'', js ''London'', js ''Osaka'']"
proof -
  have ws: "is_white_space 0x20" "\<not> is_white_space 0x4F" "\<not> is_white_space 0x61"
    by (simp_all add: is_white_space_def)
  have 1: "\<forall>c\<in>set (js ''   ''). is_white_space c"
    by (simp add: js_def ws)
  have 2: "\<not> (\<forall>c\<in>set (js ''  Osaka ''). is_white_space c)"
    by (simp add: js_def ws)
  have 3: "trim (js ''  Osaka '') = js ''Osaka''"
    by (simp add: js_def trim_def ws)
  have 4: "js ''Osaka'' \<notin> set (favoriteCities example_app)"
    by (simp add: js_def example_app_def)
  from handleAddFavorite_trims [of "js ''   ''" example_app empty_world] 1
  have a: "handleAddFavorite (js ''   '') example_app empty_world = (Inr (), example_app, empty_world)"
    by blast
  from handleAddFavorite_trims [of "js ''  Osaka ''" example_app empty_world] 2
  have b: "handleAddFavorite (js ''  Osaka '') example_app empty_world
       = addFavoriteCity (js ''Osaka'') example_app empty_world"
    unfolding 3 by blast
  have c: "favoriteCities (app_of (addFavoriteCity (js ''Osaka'') example_app empty_world))
       = [js ''Tokyo'', js ''London'', js ''Osaka'']"
    using 4 by (simp add: app_of_addFavoriteCity) (simp add: example_app_def)
  from a b c show ?thesis by simp
qed

text \<open>
  C7. Loading the credential never throws, whatever the file system holds. When the
  configuration file is missing the result is \<open>null\<close>; when it is there and its text is not
  JSON, or it cannot be read, the result is \<open>null\<close> as well.
\<close>

theorem loadApiKey_fails_soft:
  "(\<exists>v. fst (loadApiKey w) = Inr v)
   \<and> (files w (js ''weather_config.json'') = None \<longrightarrow> loadApiKey w = (Inr (Val JNull), w))
   \<and> (\<forall>text e. files w (js ''weather_config.json'') = Some (RegularFile text)
          \<and> JSON_parse text = Inl e \<longrightarrow> fst (loadApiKey w) = Inr (Val JNull))
   \<and> (files w (js ''weather_config.json'') = Some Directory \<longrightarrow>
          fst (loadApiKey w) = Inr (Val JNull))"
  by (auto simp: loadApiKey_def loadApiKey_try_def fs_existsSync_def fs_readFileSync_def Let_def
      split: sum.splits option.splits fnode.splits)

lemma JSON_parse_broken: "JSON_parse (js ''{apiKey: oops'') = Inl SyntaxError"
  by (simp add: JSON_parse_def js_def tokenize.simps is_json_ws_def is_digit_def cons_token_def)

theorem loadApiKey_fails_soft_witness:
  "loadApiKey empty_world = (Inr (Val JNull), empty_world)
   \<and> JSON_parse (js ''{apiKey: oops'') = Inl SyntaxError
   \<and> fst (loadApiKey broken_config_world) = Inr (Val JNull)"
proof -
  have 1: "files empty_world (js ''weather_config.json'') = None"
    by (simp add: empty_world_def)
  have 2: "files broken_config_world (js ''weather_config.json'')
      = Some (RegularFile (js ''{apiKey: oops''))"
    by (simp add: broken_config_world_def)
  from loadApiKey_fails_soft [of empty_world] 1
  have a: "loadApiKey empty_world = (Inr (Val JNull), empty_world)" by blast
  from loadApiKey_fails_soft [of broken_config_world] 2 JSON_parse_broken
  have b: "fst (loadApiKey broken_config_world) = Inr (Val JNull)" by blast
  from a b JSON_parse_broken show ?thesis by simp
qed

text \<open>
  C8. Saving a list of strings and loading it again: where the write succeeds, which it
  does unless the path of the favourites file is a directory, loading from the world it
  leaves returns the array of the same strings in the same order, and logs nothing.
\<close>

theorem save_load_round_trip:
  "(\<forall>w'. saveFavoriteCities app w = Inr w' \<longrightarrow>
       loadFavoriteCities w' = (Inr (JArr (map JStr (favoriteCities app))), w'))
   \<and> (files w favoritesFile \<noteq> Some Directory \<longrightarrow> (\<exists>w'. saveFavoriteCities app w = Inr w'))"
proof -
  have "loadFavoriteCities w' = (Inr (JArr (map JStr (favoriteCities app))), w')"
    if "saveFavoriteCities app w = Inr w'" for w'
  proof -
    from that have "files w' favoritesFile
        = Some (RegularFile (JSON_stringify_strings (favoriteCities app)))"
      by (auto simp: saveFavoriteCities_def fs_writeFileSync_def split: option.splits fnode.splits)
    then show ?thesis
      by (simp add: loadFavoriteCities_def loadFavoriteCities_try_def fs_existsSync_def
          fs_readFileSync_def JSON_parse_stringify)
  qed
  moreover have "\<exists>w'. saveFavoriteCities app w = Inr w'"
    if "files w favoritesFile \<noteq> Some Directory"
    using that by (auto simp: saveFavoriteCities_def fs_writeFileSync_def
        split: option.splits fnode.splits)
  ultimately show ?thesis by blast
qed

theorem save_load_round_trip_witness:
  "saveFavoriteCities example_app empty_world
     = Inr (empty_world\<lparr>files := [favoritesFile \<mapsto>
              RegularFile (JSON_stringify_strings [js ''Tokyo'', js ''London''])]\<rparr>)
   \<and> fst (loadFavoriteCities (empty_world\<lparr>files := [favoritesFile \<mapsto>
              RegularFile (JSON_stringify_strings [js ''Tokyo'', js ''London''])]\<rparr>))
     = Inr (JArr [JStr (js ''Tokyo''), JStr (js ''London'')])"
proof -
  have 1: "saveFavoriteCities example_app empty_world
     = Inr (empty_world\<lparr>files := [favoritesFile \<mapsto>
              RegularFile (JSON_stringify_strings [js ''Tokyo'', js ''London''])]\<rparr>)"
    by (simp add: saveFavoriteCities_def fs_writeFileSync_def empty_world_def example_app_def)
  from save_load_round_trip [of example_app empty_world] 1
  have "loadFavoriteCities (empty_world\<lparr>files := [favoritesFile \<mapsto>
              RegularFile (JSON_stringify_strings [js ''Tokyo'', js ''London''])]\<rparr>)
     = (Inr (JArr (map JStr (favoriteCities example_app))),
        empty_world\<lparr>files := [favoritesFile \<mapsto>
              RegularFile (JSON_stringify_strings [js ''Tokyo'', js ''London''])]\<rparr>)"
    by blast
  with 1 show ?thesis by (simp add: example_app_def)
qed

section \<open>Properties of the forecast aggregator and the presenter\<close>

text \<open>
  C1. For every sequence of forecast entries (each with a condition, its date key a plain
  key), the days that are presented are the first five, fewer if there are fewer, of the
  buckets in the order in which their date keys are first seen; the bucket of a key holds
  the temperatures of all entries of that key, in their order, and description, humidity
  and wind speed of the first of them.
\<close>

theorem forecast_days_first_five:
  assumes "\<forall>item\<in>set items. weather item \<noteq> [] \<and> plain_key (dateKey_of rt item)"
  shows "forecast_days rt items
           = Inr (take 5 (map (spec_day rt items) (spec_first_seen (map (dateKey_of rt) items))))
       \<and> (\<exists>days. forecast_days rt items = Inr days
             \<and> length days = min 5 (card (dateKey_of rt ` set items)))"
proof -
  have "length (spec_first_seen (map (dateKey_of rt) items)) = card (dateKey_of rt ` set items)"
    using distinct_card [OF distinct_spec_first_seen, of "map (dateKey_of rt) items"] by simp
  then show ?thesis
    using forecast_days_spec [OF assms] by (simp add: min.commute)
qed

lemma seven_days_ok:
  "\<forall>item\<in>set seven_days. weather item \<noteq> [] \<and> plain_key (dateKey_of example_runtime item)"
  by code_simp

lemma seven_days_spec:
  "take 5 (map (spec_day example_runtime seven_days)
      (spec_first_seen (map (dateKey_of example_runtime) seven_days)))
   = [example_day 1 [10, 20], example_day 2 [5, 30], example_day 3 [6], example_day 4 [7],
      example_day 5 [8]]"
  by code_simp

theorem forecast_days_first_five_witness:
  "list_all (\<lambda>item. weather item \<noteq> [] \<and> plain_key (dateKey_of example_runtime item)) seven_days
   \<and> forecast_days example_runtime seven_days
     = Inr [example_day 1 [10, 20], example_day 2 [5, 30], example_day 3 [6], example_day 4 [7],
            example_day 5 [8]]"
  using forecast_days_first_five [OF seven_days_ok] seven_days_ok
  unfolding seven_days_spec by (simp add: list_all_iff)

text \<open>
  C2. For every sequence of forecast entries (each with a condition, its date key a plain
  key), the forecast is rendered as the six lines of each presented day between header and
  footer, and for every presented day: its temperatures are those of exactly the entries of
  its date, there is at least one, and its second line is the range from the least to the
  greatest of them, each through \<open>toFixed(1)\<close>. For a magnitude below \<open>10\<^sup>2\<^sup>1\<close> the text of
  \<open>toFixed(1)\<close> is a decimal with one digit after the point that is within one twentieth
  of the number.
\<close>

theorem temperature_range_rendered:
  assumes "\<forall>item\<in>set items. weather item \<noteq> [] \<and> plain_key (dateKey_of rt item)"
  shows "\<exists>days. forecast_days rt items = Inr days
     \<and> displayForecast rt items w
         = (Inr (), w\<lparr>console := console w @ [hdr_forecast, rule_line]
                          @ concat (map (day_lines rt) days) @ [rule_line @ [0x0A]]\<rparr>)
     \<and> (\<forall>d\<in>set days.
           temps d = map (\<lambda>item. temp (main item)) (filter (\<lambda>item. dateKey_of rt item = date d) items)
           \<and> temps d \<noteq> []
           \<and> day_lines rt d ! 1
               = lbl_day_temp @ toFixed1 rt (Min (set (temps d))) @ lbl_range_sep
                   @ toFixed1 rt (Max (set (temps d))) @ lbl_celsius)
     \<and> (\<forall>x. \<bar>x\<bar> < 10 ^ 21 \<longrightarrow> (\<exists>r. spec_read_fixed1 (toFixed1 rt x) = Some r \<and> \<bar>r - x\<bar> \<le> 1 / 20))"
proof -
  define days where
    "days = take 5 (map (spec_day rt items) (spec_first_seen (map (dateKey_of rt) items)))"
  have fd: "forecast_days rt items = Inr days"
    unfolding days_def by (rule forecast_days_spec [OF assms])
  have each: "temps d = map (\<lambda>item. temp (main item)) (filter (\<lambda>item. dateKey_of rt item = date d) items)
           \<and> temps d \<noteq> []
           \<and> day_lines rt d ! 1
               = lbl_day_temp @ toFixed1 rt (Min (set (temps d))) @ lbl_range_sep
                   @ toFixed1 rt (Max (set (temps d))) @ lbl_celsius"
    if "d \<in> set days" for d
  proof -
    from that have "d \<in> set (map (spec_day rt items) (spec_first_seen (map (dateKey_of rt) items)))"
      unfolding days_def by (rule in_set_takeD)
    then obtain k where k: "k \<in> set (map (dateKey_of rt) items)" and d: "d = spec_day rt items k"
      by auto
    have t: "temps d = map (\<lambda>item. temp (main item)) (filter (\<lambda>item. dateKey_of rt item = date d) items)"
      by (simp add: d spec_day_def Let_def)
    from k have "filter (\<lambda>item. dateKey_of rt item = k) items \<noteq> []"
      by (auto simp: filter_empty_conv)
    then have ne: "temps d \<noteq> []" by (simp add: d spec_day_def Let_def)
    from t ne temperature_line_nonempty [OF ne, of rt] show ?thesis
      by (simp add: day_lines_def)
  qed
  from fd displayForecast_days [OF fd, of w] each toFixed1_reads_back [of _ rt]
  show ?thesis by blast
qed

lemma two_days_ok:
  "\<forall>item\<in>set two_days. weather item \<noteq> [] \<and> plain_key (dateKey_of example_runtime item)"
  by code_simp

lemma two_days_grouped:
  "forecast_days example_runtime two_days = Inr [example_day 1 [10, 20], example_day 2 [5]]"
  by code_simp

lemma toFixed1_examples:
  "toFixed1 example_runtime 10 = js ''10.0''" "toFixed1 example_runtime 20 = js ''20.0''"
  by code_simp+

theorem temperature_range_rendered_witness:
  "list_all (\<lambda>item. weather item \<noteq> [] \<and> plain_key (dateKey_of example_runtime item)) two_days
   \<and> forecast_days example_runtime two_days = Inr [example_day 1 [10, 20], example_day 2 [5]]
   \<and> day_lines example_runtime (example_day 1 [10, 20]) ! 1
       = lbl_day_temp @ js ''10.0'' @ lbl_range_sep @ js ''20.0'' @ lbl_celsius"
proof -
  from temperature_range_rendered [OF two_days_ok, of empty_world]
  obtain days where "forecast_days example_runtime two_days = Inr days"
    and each: "\<forall>d\<in>set days. day_lines example_runtime d ! 1
               = lbl_day_temp @ toFixed1 example_runtime (Min (set (temps d))) @ lbl_range_sep
                   @ toFixed1 example_runtime (Max (set (temps d))) @ lbl_celsius"
    by blast
  then have "days = [example_day 1 [10, 20], example_day 2 [5]]"
    by (simp add: two_days_grouped)
  with each have "day_lines example_runtime (example_day 1 [10, 20]) ! 1
       = lbl_day_temp @ toFixed1 example_runtime (Min (set (temps (example_day 1 [10, 20]))))
           @ lbl_range_sep
           @ toFixed1 example_runtime (Max (set (temps (example_day 1 [10, 20])))) @ lbl_celsius"
    by simp
  then have "day_lines example_runtime (example_day 1 [10, 20]) ! 1
       = lbl_day_temp @ js ''10.0'' @ lbl_range_sep @ js ''20.0'' @ lbl_celsius"
    by (simp add: example_day_def toFixed1_examples)
  with two_days_ok two_days_grouped show ?thesis by (simp add: list_all_iff)
qed

section \<open>Properties of the current-weather presenter\<close>

lemma logged_displayCurrentWeather:
  assumes "weather report = c # cs"
  shows "fst (displayCurrentWeather rt report w) = Inr ()"
    and "logged w (displayCurrentWeather rt report w)
      = head_lines rt report c @ visibility_lines rt (visibility report) @ tail_lines rt report"
  using assms
  by (simp_all add: displayCurrentWeather_def Let_def logged_def console_log_def head_lines_def
      tail_lines_def visibility_lines_def split: option.splits)

lemma unlabelled_lines:
  "\<forall>line\<in>set (head_lines rt report c @ tail_lines rt report). \<not> starts_with lbl_visibility line"
  by (simp add: head_lines_def tail_lines_def starts_with_def lbl_visibility_def js_def
      hdr_current_def rule_line_def lbl_city_def lbl_temp_def lbl_weather_def lbl_humidity_def
      lbl_wind_def lbl_pressure_def lbl_sunrise_def lbl_sunset_def)

lemma visibility_line_labelled: "starts_with lbl_visibility (visibility_line rt v)"
  by (simp add: starts_with_def visibility_line_def)

text \<open>
  C9. Rendering a current-weather report that has a condition: a line with the
  visibility label is logged exactly when the visibility field is present and not zero,
  and then it is the one line of the label, \<open>toFixed(1)\<close> of the field divided by 1000,
  and the unit; a visibility of zero, and an absent one, give no such line. For a magnitude
  below \<open>10\<^sup>2\<^sup>1\<close> the text of \<open>toFixed(1)\<close> is a decimal with one digit after the point that
  is within one twentieth of the number.
\<close>

theorem visibility_line_when_truthy:
  assumes "weather report \<noteq> []"
  shows "fst (displayCurrentWeather rt report w) = Inr ()
     \<and> ((\<exists>line\<in>set (logged w (displayCurrentWeather rt report w)). starts_with lbl_visibility line)
          \<longleftrightarrow> (\<exists>v. visibility report = Some v \<and> v \<noteq> 0))
     \<and> (\<forall>v. visibility report = Some v \<and> v \<noteq> 0 \<longrightarrow>
          filter (starts_with lbl_visibility) (logged w (displayCurrentWeather rt report w))
            = [lbl_visibility @ toFixed1 rt (Number_divide v 1000) @ js '' km''])
     \<and> (visibility report = Some 0 \<or> visibility report = None \<longrightarrow>
          filter (starts_with lbl_visibility) (logged w (displayCurrentWeather rt report w)) = [])
     \<and> (\<forall>x. \<bar>x\<bar> < 10 ^ 21 \<longrightarrow> (\<exists>r. spec_read_fixed1 (toFixed1 rt x) = Some r \<and> \<bar>r - x\<bar> \<le> 1 / 20))"
proof -
  from assms obtain c cs where c: "weather report = c # cs"
    by (cases "weather report") auto
  let ?lines = "logged w (displayCurrentWeather rt report w)"
  have l: "?lines = head_lines rt report c @ visibility_lines rt (visibility report)
      @ tail_lines rt report"
    by (rule logged_displayCurrentWeather [OF c])
  have f: "filter (starts_with lbl_visibility) ?lines = visibility_lines rt (visibility report)"
  proof -
    have "filter (starts_with lbl_visibility) (head_lines rt report c) = []"
      "filter (starts_with lbl_visibility) (tail_lines rt report) = []"
      using unlabelled_lines [of rt report c] by (auto simp: filter_empty_conv)
    moreover have "filter (starts_with lbl_visibility) (visibility_lines rt (visibility report))
        = visibility_lines rt (visibility report)"
      by (simp add: visibility_lines_def visibility_line_labelled split: option.splits)
    ultimately show ?thesis by (simp add: l)
  qed
  have e: "(\<exists>line\<in>set ?lines. starts_with lbl_visibility line)
      \<longleftrightarrow> filter (starts_with lbl_visibility) ?lines \<noteq> []"
    by (simp add: filter_empty_conv)
  have 1: "(\<exists>line\<in>set ?lines. starts_with lbl_visibility line)
          \<longleftrightarrow> (\<exists>v. visibility report = Some v \<and> v \<noteq> 0)"
    unfolding e f by (simp add: visibility_lines_def split: option.splits)
  have 2: "\<forall>v. visibility report = Some v \<and> v \<noteq> 0 \<longrightarrow>
          filter (starts_with lbl_visibility) ?lines
            = [lbl_visibility @ toFixed1 rt (Number_divide v 1000) @ js '' km'']"
    unfolding f by (simp add: visibility_lines_def visibility_line_def)
  have 3: "visibility report = Some 0 \<or> visibility report = None \<longrightarrow>
          filter (starts_with lbl_visibility) ?lines = []"
    unfolding f by (auto simp: visibility_lines_def)
  from logged_displayCurrentWeather(1) [OF c, of rt w] 1 2 3 toFixed1_reads_back [of _ rt]
  show ?thesis by blast
qed

lemma visibility_examples:
  "toFixed1 example_runtime (Number_divide 10000 1000) = js ''10.0''"
  "toFixed1 example_runtime (Number_divide 1150 1000) = js ''1.1''"
  by code_simp+

theorem visibility_line_when_truthy_witness:
  "weather (example_current (Some 10000)) \<noteq> []
   \<and> filter (starts_with lbl_visibility)
        (logged empty_world (displayCurrentWeather example_runtime (example_current (Some 10000)) empty_world))
       = [lbl_visibility @ js ''10.0'' @ js '' km'']
   \<and> filter (starts_with lbl_visibility)
        (logged empty_world (displayCurrentWeather example_runtime (example_current (Some 1150)) empty_world))
       = [lbl_visibility @ js ''1.1'' @ js '' km'']
   \<and> filter (starts_with lbl_visibility)
        (logged empty_world (displayCurrentWeather example_runtime (example_current (Some 0)) empty_world))
       = []
   \<and> filter (starts_with lbl_visibility)
        (logged empty_world (displayCurrentWeather example_runtime (example_current None) empty_world))
       = []"
proof -
  have w: "weather (example_current v) \<noteq> []" for v
    by (simp add: example_current_def)
  have v: "visibility (example_current v) = v" for v
    by (simp add: example_current_def)
  from visibility_line_when_truthy [OF w, of example_runtime "Some 10000" empty_world]
  have a: "filter (starts_with lbl_visibility)
        (logged empty_world (displayCurrentWeather example_runtime (example_current (Some 10000)) empty_world))
       = [lbl_visibility @ js ''10.0'' @ js '' km'']"
    by (simp add: v visibility_examples)
  from visibility_line_when_truthy [OF w, of example_runtime "Some 1150" empty_world]
  have b: "filter (starts_with lbl_visibility)
        (logged empty_world (displayCurrentWeather example_runtime (example_current (Some 1150)) empty_world))
       = [lbl_visibility @ js ''1.1'' @ js '' km'']"
    by (simp add: v visibility_examples)
  from visibility_line_when_truthy [OF w, of example_runtime "Some 0" empty_world]
  have c: "filter (starts_with lbl_visibility)
        (logged empty_world (displayCurrentWeather example_runtime (example_current (Some 0)) empty_world))
       = []"
    by (simp add: v)
  from visibility_line_when_truthy [OF w, of example_runtime None empty_world]
  have d: "filter (starts_with lbl_visibility)
        (logged empty_world (displayCurrentWeather example_runtime (example_current None) empty_world))
       = []"
    by (simp add: v)
  from w a b c d show ?thesis by blast
qed

end
